theory Spec2Isabelle
  imports Main "HOL-Library.Word"
begin

section \<open>Python values shared by the whole development\<close>

text \<open>
  The exceptions the modelled code raises, and the three ways a call can end: it returns a
  value, it raises, or it never returns (a retry loop against a backend that stays empty).
\<close>

datatype error =
    TimeoutError | RuntimeError | AttributeError | ValueError | TypeError
  | ImportError | KeyError | StopIteration

datatype 'a outcome = Returns 'a | Raises error | Hangs

text \<open>
  \<open>threshold: int = math.inf\<close>: the float infinity, an integer, or (nothing checks the
  annotation) a value that is not a number, which \<open>use()\<close> cannot compare with the counter.
\<close>

datatype threshold = Unbounded | Bound int | NotNumber

text \<open>
  The callbacks a lease or a provider can carry. \<open>NotCallable\<close> stands for \<open>None\<close>, for
  the \<open>...\<close> default and for any other value that cannot be called; the others are the
  callables the source installs, each bound to the provider (numbered in the store of
  providers) that created it, and \<open>UserFn\<close> a callable supplied by the user of the library,
  known by its \<open>str()\<close>.
\<close>

datatype callback =
    NotCallable
  | BaseClear nat
  | ClashClear nat
  | ApiPutBack nat
  | RedisAdd nat
  | UserFn string


section \<open>The lease: class \<open>Proxy\<close>\<close>

text \<open>
  \<open>counter\<close> is \<open>itertools.count(1)\<close>: the field holds the value the next \<open>next()\<close> yields.
  \<open>derive\<close> is the number of the provider that made the lease.
\<close>

record lease =
  proxy :: "string option"
  auth :: callback
  recover :: callback
  clear :: callback
  threshold :: threshold
  counter :: int
  derive :: "nat option"
  rkey :: "string option"

definition Proxy_init ::
  "string option \<Rightarrow> callback \<Rightarrow> callback \<Rightarrow> callback \<Rightarrow> threshold \<Rightarrow> nat option
     \<Rightarrow> string option \<Rightarrow> lease" where
  "Proxy_init p a r c t d k =
     \<lparr>proxy = p, auth = a, recover = r, clear = c, threshold = t, counter = 1,
      derive = d, rkey = k\<rparr>"

text \<open>\<open>Proxy()\<close>: every argument at its default.\<close>

definition Proxy_empty :: lease where
  "Proxy_empty = Proxy_init None NotCallable NotCallable NotCallable Unbounded None None"

text \<open>\<open>__bool__\<close>: \<open>bool(self.proxy)\<close>; \<open>None\<close> and the empty string are falsy.\<close>

definition lease_bool :: "lease \<Rightarrow> bool" where
  "lease_bool p = (case proxy p of None \<Rightarrow> False | Some s \<Rightarrow> s \<noteq> [])"






section \<open>The standard library: \<open>urllib.parse.urlparse\<close>\<close>

text \<open>
  Strings are lists of characters with code points below 256. The two checks of
  \<open>urlsplit\<close> that need tables this development does not have are taken as parameters:
  \<open>bracketed_host_ok\<close> is \<open>_check_bracketed_host\<close> (the text between \<open>[\<close> and \<open>]\<close> is an
  IPv6 or IPvFuture literal) and \<open>nfkc_ok\<close> is the NFKC test of \<open>_checknetloc\<close> on a
  network location with a non-ASCII character. \<open>hash_str\<close> and \<open>hash_BaseProxy\<close> are the
  builtin \<open>hash\<close> on a string and on the class object \<open>BaseProxy\<close>.
\<close>

record pylib =
  bracketed_host_ok :: "string \<Rightarrow> bool"
  nfkc_ok :: "string \<Rightarrow> bool"
  hash_str :: "string \<Rightarrow> int"
  hash_BaseProxy :: int

definition code :: "char \<Rightarrow> nat" where
  "code c = of_char c"

definition isascii :: "char \<Rightarrow> bool" where
  "isascii c = (code c < 128)"

definition ascii_alpha :: "char \<Rightarrow> bool" where
  "ascii_alpha c = ((65 \<le> code c \<and> code c \<le> 90) \<or> (97 \<le> code c \<and> code c \<le> 122))"

definition ascii_digit :: "char \<Rightarrow> bool" where
  "ascii_digit c = (48 \<le> code c \<and> code c \<le> 57)"

text \<open>\<open>scheme_chars\<close>: letters, digits and \<open>+-.\<close>\<close>

definition scheme_char :: "char \<Rightarrow> bool" where
  "scheme_char c = (ascii_alpha c \<or> ascii_digit c \<or> c \<in> set ''+-.'')"

text \<open>\<open>str.lower\<close> on code points below 256.\<close>

definition lower_char :: "char \<Rightarrow> char" where
  "lower_char c =
     (if (65 \<le> code c \<and> code c \<le> 90) \<or> (192 \<le> code c \<and> code c \<le> 222 \<and> code c \<noteq> 215)
      then char_of (code c + 32) else c)"

definition lower :: "string \<Rightarrow> string" where
  "lower s = map lower_char s"

text \<open>\<open>s.partition(c)\<close> and \<open>s.rpartition(c)\<close>; the flag says whether \<open>c\<close> was found.\<close>

definition partition_at :: "char \<Rightarrow> string \<Rightarrow> string \<times> bool \<times> string" where
  "partition_at c s =
     (if c \<in> set s
      then (takeWhile (\<lambda>x. x \<noteq> c) s, True, tl (dropWhile (\<lambda>x. x \<noteq> c) s))
      else (s, False, []))"

definition rpartition_at :: "char \<Rightarrow> string \<Rightarrow> string \<times> bool \<times> string" where
  "rpartition_at c s =
     (if c \<in> set s
      then (rev (tl (dropWhile (\<lambda>x. x \<noteq> c) (rev s))), True,
            rev (takeWhile (\<lambda>x. x \<noteq> c) (rev s)))
      else ([], False, s))"

text \<open>\<open>_WHATWG_C0_CONTROL_OR_SPACE\<close> and \<open>_UNSAFE_URL_BYTES_TO_REMOVE\<close>.\<close>

definition c0_or_space :: "char \<Rightarrow> bool" where
  "c0_or_space c = (code c \<le> 32)"

definition unsafe_byte :: "char \<Rightarrow> bool" where
  "unsafe_byte c = (code c = 9 \<or> code c = 13 \<or> code c = 10)"

record split_result =
  sr_scheme :: string
  sr_netloc :: string
  sr_path :: string
  sr_query :: string
  sr_fragment :: string

text \<open>
  \<open>urlsplit(url)\<close> with the default \<open>scheme=''\<close> and \<open>allow_fragments=True\<close>, step by step:
  strip, remove the unsafe bytes, take the scheme, take the network location after \<open>//\<close>,
  check its brackets, cut the fragment and the query, check the network location.
\<close>

definition split_scheme :: "string \<Rightarrow> string \<times> string" where
  "split_scheme url =
     (if CHR '':'' \<in> set url \<and> url \<noteq> [] \<and> hd url \<noteq> CHR '':'' \<and>
         isascii (hd url) \<and> ascii_alpha (hd url) \<and>
         (\<forall>c \<in> set (takeWhile (\<lambda>x. x \<noteq> CHR '':'') url). scheme_char c)
      then (lower (takeWhile (\<lambda>x. x \<noteq> CHR '':'') url), tl (dropWhile (\<lambda>x. x \<noteq> CHR '':'') url))
      else ([], url))"

definition netloc_delim :: "char \<Rightarrow> bool" where
  "netloc_delim c = (c \<in> set ''/?#'')"

definition splitnetloc :: "string \<Rightarrow> string \<times> string" where
  "splitnetloc url =
     (takeWhile (\<lambda>c. \<not> netloc_delim c) (drop 2 url),
      dropWhile (\<lambda>c. \<not> netloc_delim c) (drop 2 url))"

definition brackets_ok :: "pylib \<Rightarrow> string \<Rightarrow> bool" where
  "brackets_ok py nl =
     (let l = CHR ''['' \<in> set nl; r = CHR '']'' \<in> set nl
      in if (l \<and> \<not> r) \<or> (r \<and> \<not> l) then False
         else if l \<and> r
         then bracketed_host_ok py
                (fst (partition_at CHR '']'' (snd (snd (partition_at CHR ''['' nl)))))
         else True)"

definition checknetloc :: "pylib \<Rightarrow> string \<Rightarrow> bool" where
  "checknetloc py nl = (nl = [] \<or> (\<forall>c \<in> set nl. isascii c) \<or> nfkc_ok py nl)"

definition urlsplit :: "pylib \<Rightarrow> string \<Rightarrow> split_result outcome" where
  "urlsplit py url0 =
     (let url1 = filter (\<lambda>c. \<not> unsafe_byte c) (dropWhile c0_or_space url0);
          (sch, url2) = split_scheme url1;
          (nl, url3) = (if take 2 url2 = ''//'' then splitnetloc url2 else ([], url2))
      in if \<not> brackets_ok py nl then Raises ValueError
         else
           (let (url4, frag) =
                  (if CHR ''#'' \<in> set url3
                   then (fst (partition_at CHR ''#'' url3), snd (snd (partition_at CHR ''#'' url3)))
                   else (url3, []));
                (url5, qry) =
                  (if CHR ''?'' \<in> set url4
                   then (fst (partition_at CHR ''?'' url4), snd (snd (partition_at CHR ''?'' url4)))
                   else (url4, []))
            in if \<not> checknetloc py nl then Raises ValueError
               else Returns \<lparr>sr_scheme = sch, sr_netloc = nl, sr_path = url5,
                              sr_query = qry, sr_fragment = frag\<rparr>))"

definition uses_params :: "string list" where
  "uses_params = ([[], ''ftp'', ''hdl'', ''prospero'', ''http'', ''imap'', ''https'', ''shttp'',
     ''rtsp'', ''rtsps'', ''rtspu'', ''sip'', ''sips'', ''mms'', ''sftp'', ''tel''])"

text \<open>
  \<open>_splitparams\<close>: the parameters start at the first \<open>;\<close> of the last path segment.
\<close>

definition splitparams :: "string \<Rightarrow> string \<times> string" where
  "splitparams url =
     (if CHR ''/'' \<in> set url
      then (let (before, _, lastseg) = rpartition_at CHR ''/'' url
            in if CHR '';'' \<in> set lastseg
               then (before @ ''/'' @ fst (partition_at CHR '';'' lastseg),
                     snd (snd (partition_at CHR '';'' lastseg)))
               else (url, []))
      else (fst (partition_at CHR '';'' url), snd (snd (partition_at CHR '';'' url))))"

record parse_result =
  scheme_of :: string
  netloc :: string
  path :: string
  params :: string
  query :: string
  fragment :: string

definition urlparse :: "pylib \<Rightarrow> string \<Rightarrow> parse_result outcome" where
  "urlparse py url =
     (case urlsplit py url of
        Raises e \<Rightarrow> Raises e
      | Hangs \<Rightarrow> Hangs
      | Returns r \<Rightarrow>
          (let (p, ps) = (if sr_scheme r \<in> set uses_params \<and> CHR '';'' \<in> set (sr_path r)
                          then splitparams (sr_path r) else (sr_path r, []))
           in Returns \<lparr>scheme_of = sr_scheme r, netloc = sr_netloc r, path = p, params = ps,
                        query = sr_query r, fragment = sr_fragment r\<rparr>))"

text \<open>
  The attributes \<open>username\<close>, \<open>password\<close>, \<open>hostname\<close> and \<open>port\<close> of a parse result
  (\<open>_userinfo\<close> and \<open>_hostinfo\<close> of \<open>_NetlocResultMixinStr\<close>).
\<close>

definition userinfo :: "parse_result \<Rightarrow> string option \<times> string option" where
  "userinfo r =
     (let (info, have_info, _) = rpartition_at CHR ''@'' (netloc r)
      in if have_info
         then (let (u, have_password, pw) = partition_at CHR '':'' info
               in (Some u, if have_password then Some pw else None))
         else (None, None))"

definition username_of :: "parse_result \<Rightarrow> string option" where
  "username_of r = fst (userinfo r)"

definition password_of :: "parse_result \<Rightarrow> string option" where
  "password_of r = snd (userinfo r)"

definition hostinfo :: "parse_result \<Rightarrow> string \<times> string option" where
  "hostinfo r =
     (let (_, _, hi) = rpartition_at CHR ''@'' (netloc r);
          (_, have_open_br, bracketed) = partition_at CHR ''['' hi;
          (hostname, port) =
            (if have_open_br
             then (let (h, _, p) = partition_at CHR '']'' bracketed
                   in (h, snd (snd (partition_at CHR '':'' p))))
             else (fst (partition_at CHR '':'' hi), snd (snd (partition_at CHR '':'' hi))))
      in (hostname, if port = [] then None else Some port))"

definition hostname_of :: "parse_result \<Rightarrow> string option" where
  "hostname_of r =
     (let h = fst (hostinfo r)
      in if h = [] then None
         else (let (host, percent, zone) = partition_at CHR ''%'' h
               in Some (lower host @ (if percent then ''%'' else []) @ zone)))"

text \<open>Decimal digits to a number and back: \<open>int(port)\<close> and \<open>str(n)\<close>.\<close>

definition digits_value :: "string \<Rightarrow> nat" where
  "digits_value s = foldl (\<lambda>acc c. 10 * acc + (code c - 48)) 0 s"

definition digit_char :: "nat \<Rightarrow> char" where
  "digit_char n = ''0123456789abcdef'' ! (n mod 16)"

function str_nat :: "nat \<Rightarrow> string" where
  "str_nat n =
     (if n < 10 then [digit_char n]
      else str_nat (n div 10) @ [digit_char (n mod 10)])"
  by pat_completeness auto
termination
  by (relation "measure (\<lambda>n. n)") auto

declare str_nat.simps [simp del]

definition str_int :: "int \<Rightarrow> string" where
  "str_int i = (if i < 0 then ''-'' @ str_nat (nat (- i)) else str_nat (nat i))"

definition port_of :: "parse_result \<Rightarrow> nat option outcome" where
  "port_of r =
     (case snd (hostinfo r) of
        None \<Rightarrow> Returns None
      | Some p \<Rightarrow>
          if (\<forall>c \<in> set p. ascii_digit c)
          then (if digits_value p \<le> 65535 then Returns (Some (digits_value p))
                else Raises ValueError)
          else Raises ValueError)"

text \<open>\<open>str(x)\<close> of an optional string inside an f-string, and its truth value.\<close>

definition str_opt :: "string option \<Rightarrow> string" where
  "str_opt x = (case x of None \<Rightarrow> ''None'' | Some s \<Rightarrow> s)"

definition truthy :: "string option \<Rightarrow> bool" where
  "truthy x = (case x of None \<Rightarrow> False | Some s \<Rightarrow> s \<noteq> [])"

section \<open>The standard library: \<open>hash\<close> of a string\<close>

text \<open>
  CPython hashes a string with SipHash-1-3 over its bytes (one byte per character for code
  points below 256), keyed by a per-process secret; with hash randomisation disabled
  (\<open>PYTHONHASHSEED=0\<close>) both key words are zero. The empty string hashes to 0, the result is
  read as a signed 64-bit integer, and -1 is replaced by -2.
\<close>

type_synonym u64 = "64 word"

type_synonym sipstate = "u64 \<times> u64 \<times> u64 \<times> u64"

definition rotl64 :: "u64 \<Rightarrow> nat \<Rightarrow> u64" where
  "rotl64 x b = or (push_bit b x) (drop_bit (64 - b) x)"

text \<open>
  \<open>HALF_ROUND(a,b,c,d,s,t)\<close>: \<open>a += b; c += d; b = ROTATE(b,s) ^ a; d = ROTATE(d,t) ^ c;
  a = ROTATE(a,32)\<close>, and \<open>SINGLE_ROUND\<close>, which applies it to \<open>(v0,v1,v2,v3)\<close> and then to
  \<open>(v2,v1,v0,v3)\<close>.
\<close>

definition half_round :: "u64 \<Rightarrow> u64 \<Rightarrow> u64 \<Rightarrow> u64 \<Rightarrow> nat \<Rightarrow> nat \<Rightarrow> sipstate" where
  "half_round a b c d s t =
     (rotl64 (a + b) 32, xor (rotl64 b s) (a + b), c + d, xor (rotl64 d t) (c + d))"

fun first_half :: "sipstate \<Rightarrow> sipstate" where
  "first_half (v0, v1, v2, v3) = half_round v0 v1 v2 v3 13 16"

fun swap02 :: "sipstate \<Rightarrow> sipstate" where
  "swap02 (v2, v1, v0, v3) = (v0, v1, v2, v3)"

fun second_half :: "sipstate \<Rightarrow> sipstate" where
  "second_half (v0, v1, v2, v3) = swap02 (half_round v2 v1 v0 v3 17 21)"

definition single_round :: "sipstate \<Rightarrow> sipstate" where
  "single_round v = second_half (first_half v)"

fun xor_v0 :: "sipstate \<Rightarrow> u64 \<Rightarrow> sipstate" where
  "xor_v0 (v0, v1, v2, v3) m = (xor v0 m, v1, v2, v3)"

fun xor_v2 :: "sipstate \<Rightarrow> u64 \<Rightarrow> sipstate" where
  "xor_v2 (v0, v1, v2, v3) m = (v0, v1, xor v2 m, v3)"

fun xor_v3 :: "sipstate \<Rightarrow> u64 \<Rightarrow> sipstate" where
  "xor_v3 (v0, v1, v2, v3) m = (v0, v1, v2, xor v3 m)"

text \<open>One message word: \<open>v3 ^= m; SINGLE_ROUND; v0 ^= m\<close>.\<close>

definition absorb :: "sipstate \<Rightarrow> u64 \<Rightarrow> sipstate" where
  "absorb v m = xor_v0 (single_round (xor_v3 v m)) m"

text \<open>Up to eight bytes read as a little-endian word.\<close>

fun le64 :: "string \<Rightarrow> u64" where
  "le64 [] = 0"
| "le64 (c # cs) = of_nat (of_char c) + push_bit 8 (le64 cs)"

text \<open>The loop over whole 8-byte blocks; the result carries the bytes left over.\<close>

fun sip_blocks :: "sipstate \<Rightarrow> string \<Rightarrow> sipstate \<times> string" where
  "sip_blocks v (a # b # c # d # e # f # g # h # src) =
     sip_blocks (absorb v (le64 [a, b, c, d, e, f, g, h])) src"
| "sip_blocks v src = (v, src)"

fun last_block :: "nat \<Rightarrow> sipstate \<times> string \<Rightarrow> sipstate" where
  "last_block n (v, src) = absorb v (or (push_bit 56 (of_nat n)) (le64 src))"

fun fold_state :: "sipstate \<Rightarrow> u64" where
  "fold_state (v0, v1, v2, v3) = xor (xor v0 v1) (xor v2 v3)"

definition siphash13 :: "u64 \<Rightarrow> u64 \<Rightarrow> string \<Rightarrow> u64" where
  "siphash13 k0 k1 src =
     fold_state (single_round (single_round (single_round
       (xor_v2
          (last_block (length src)
             (sip_blocks (xor k0 0x736f6d6570736575, xor k1 0x646f72616e646f6d,
                          xor k0 0x6c7967656e657261, xor k1 0x7465646279746573) src))
          0xff))))"

fun not_minus_one :: "int \<Rightarrow> int" where
  "not_minus_one x = (if x = - 1 then - 2 else x)"

definition hash_seed0 :: "string \<Rightarrow> int" where
  "hash_seed0 s = (if s = [] then 0 else not_minus_one (sint (siphash13 0 0 s)))"

text \<open>
  A library instance for evaluating concrete calls: the interpreter with hash randomisation
  disabled, no rejection of a bracketed or non-ASCII network location (the interpreters
  before those checks were added), and the class object \<open>BaseProxy\<close> at some address.
\<close>

definition py_seed0 :: pylib where
  "py_seed0 =
     \<lparr>bracketed_host_ok = (\<lambda>_. True), nfkc_ok = (\<lambda>_. True), hash_str = hash_seed0,
      hash_BaseProxy = 8760153402371\<rparr>"

section \<open>The provider base class: \<open>BaseProxy\<close>\<close>

record base_proxy =
  scheme :: string
  username :: "string option"
  password :: "string option"
  p_auth :: callback
  p_threshold :: threshold
  p_recover :: callback

definition prefix_of :: "base_proxy \<Rightarrow> string" where
  "prefix_of b =
     (if truthy (username b) \<and> truthy (password b)
      then str_opt (username b) @ '':'' @ str_opt (password b) @ ''@''
      else [])"

text \<open>
  \<open>BaseProxy.fmt\<close>. The four branches are tried in the order of the source; an input that
  matches none of them is returned as it is.
\<close>

definition fmt :: "pylib \<Rightarrow> base_proxy \<Rightarrow> string option \<Rightarrow> string outcome" where
  "fmt py b proxy0 =
     (if \<not> truthy proxy0 then Returns []
      else
        (case urlparse py (the proxy0) of
           Raises e \<Rightarrow> Raises e
         | Hangs \<Rightarrow> Hangs
         | Returns parsed \<Rightarrow>
             if path parsed \<noteq> [] \<and> netloc parsed = [] \<and> scheme_of parsed = []
             then Returns (scheme b @ ''://'' @ prefix_of b @ the proxy0)
             else if netloc parsed \<noteq> [] \<and> scheme_of parsed = []
             then Returns (scheme b @ ''://'' @ prefix_of b @ drop 2 (the proxy0))
             else if scheme_of parsed \<noteq> [] \<and> netloc parsed \<noteq> []
             then Returns (scheme b @ ''://'' @ prefix_of b @ netloc parsed)
             else if truthy (username_of parsed) \<and> truthy (password_of parsed)
             then (case port_of parsed of
                     Raises e \<Rightarrow> Raises e
                   | Hangs \<Rightarrow> Hangs
                   | Returns port \<Rightarrow>
                       Returns (scheme b @ ''://'' @ str_opt (username_of parsed) @ '':'' @
                                str_opt (password_of parsed) @ ''@'' @
                                str_opt (hostname_of parsed) @ [CHR 0x22] @
                                (case port of None \<Rightarrow> ''None'' | Some n \<Rightarrow> str_nat n)))
             else Returns (the proxy0)))"

section \<open>Configuration records and their keys\<close>

text \<open>
  The values a declarative configuration record holds: \<open>None\<close>, booleans, integers,
  strings, lists and dictionaries with string keys (in insertion order), and any other
  object, of which only its \<open>str()\<close> matters. Floats are not modelled.
\<close>

datatype pyval =
    PNone
  | PBool bool
  | PInt int
  | PStr string
  | PList "pyval list"
  | PDict "(string \<times> pyval) list"
  | PObj string

text \<open>\<open>json.encoder.encode_basestring_ascii\<close>: the escapes of a JSON string.\<close>

definition json_char :: "char \<Rightarrow> string" where
  "json_char c =
     (if c = CHR 0x22 then [CHR 0x5C, CHR 0x22]
      else if c = CHR 0x5C then [CHR 0x5C, CHR 0x5C]
      else if c = CHR 0x0A then [CHR 0x5C, CHR ''n'']
      else if c = CHR 0x0D then [CHR 0x5C, CHR ''r'']
      else if c = CHR 0x09 then [CHR 0x5C, CHR ''t'']
      else if c = CHR 0x08 then [CHR 0x5C, CHR ''b'']
      else if c = CHR 0x0C then [CHR 0x5C, CHR ''f'']
      else if 32 \<le> code c \<and> code c \<le> 126 then [c]
      else [CHR 0x5C, CHR ''u'', CHR ''0'', CHR ''0'', digit_char (code c div 16),
            digit_char (code c mod 16)])"

definition json_str :: "string \<Rightarrow> string" where
  "json_str s = [CHR 0x22] @ concat (map json_char s) @ [CHR 0x22]"

text \<open>\<open>', '.join(items)\<close>\<close>

fun join_comma :: "string list \<Rightarrow> string" where
  "join_comma [] = []"
| "join_comma [x] = x"
| "join_comma (x # y # ys) = x @ '', '' @ join_comma (y # ys)"

text \<open>
  \<open>json.dumps(obj, default=str)\<close> with the default separators: a dictionary is written
  in the order of its items, and an object that JSON does not know is replaced by its
  \<open>str()\<close>, written as a string.
\<close>

fun json_dumps :: "pyval \<Rightarrow> string" where
  "json_dumps PNone = ''null''"
| "json_dumps (PBool b) = (if b then ''true'' else ''false'')"
| "json_dumps (PInt i) = str_int i"
| "json_dumps (PStr s) = json_str s"
| "json_dumps (PObj s) = json_str s"
| "json_dumps (PList xs) = ''['' @ join_comma (map json_dumps xs) @ '']''"
| "json_dumps (PDict kvs) =
     ''{'' @ join_comma (map (\<lambda>(k, v). json_str k @ '': '' @ json_dumps v) kvs) @ ''}''"

text \<open>
  What \<open>Manager\<close>'s methods take: a declarative record, or a live provider (the number of
  the provider object in the store).
\<close>

datatype config = Record "(string \<times> pyval) list" | Instance nat

text \<open>\<open>Manager.get_rkey\<close>\<close>

definition get_rkey :: "pylib \<Rightarrow> config \<Rightarrow> string" where
  "get_rkey py obj =
     (case obj of
        Instance _ \<Rightarrow> str_int (hash_BaseProxy py)
      | Record d \<Rightarrow> str_int (hash_str py (json_dumps (PDict d))))"

section \<open>Providers and their backends\<close>

text \<open>Truth value of a configuration value, and \<open>a or b\<close>.\<close>

fun py_truthy :: "pyval \<Rightarrow> bool" where
  "py_truthy PNone = False"
| "py_truthy (PBool b) = b"
| "py_truthy (PInt i) = (i \<noteq> 0)"
| "py_truthy (PStr s) = (s \<noteq> [])"
| "py_truthy (PList xs) = (xs \<noteq> [])"
| "py_truthy (PDict kvs) = (kvs \<noteq> [])"
| "py_truthy (PObj s) = True"

definition py_or :: "pyval \<Rightarrow> pyval \<Rightarrow> pyval" where
  "py_or a b = (if py_truthy a then a else b)"

text \<open>\<open>d.get(k)\<close> on a dictionary: \<open>None\<close> when the key is missing.\<close>

definition dict_get :: "(string \<times> pyval) list \<Rightarrow> string \<Rightarrow> pyval" where
  "dict_get d k = (case map_of d k of None \<Rightarrow> PNone | Some v \<Rightarrow> v)"

text \<open>
  \<open>repr(x)\<close> and \<open>str(x)\<close>. The \<open>repr\<close> of a string is quoted with an apostrophe, or with a
  double quote when the string has an apostrophe and no double quote; the quote and the
  backslash are escaped, and so is every character that is not printable. The text of a
  list or dictionary is made of the \<open>repr\<close> of its items. An object's \<open>repr()\<close> is taken to be
  its \<open>str()\<close>, as it is for a function or a class.
\<close>

definition printable :: "char \<Rightarrow> bool" where
  "printable c \<longleftrightarrow> (32 \<le> code c \<and> code c \<le> 126) \<or> (161 \<le> code c \<and> code c \<noteq> 173)"

definition repr_char :: "char \<Rightarrow> char \<Rightarrow> string" where
  "repr_char q c =
     (if c = q \<or> c = CHR 0x5C then [CHR 0x5C, c]
      else if c = CHR 0x09 then [CHR 0x5C, CHR ''t'']
      else if c = CHR 0x0A then [CHR 0x5C, CHR ''n'']
      else if c = CHR 0x0D then [CHR 0x5C, CHR ''r'']
      else if printable c then [c]
      else [CHR 0x5C, CHR ''x'', digit_char (code c div 16), digit_char (code c mod 16)])"

definition repr_str :: "string \<Rightarrow> string" where
  "repr_str s =
     (if CHR 0x27 \<in> set s \<and> CHR 0x22 \<notin> set s
      then [CHR 0x22] @ concat (map (repr_char (CHR 0x22)) s) @ [CHR 0x22]
      else [CHR 0x27] @ concat (map (repr_char (CHR 0x27)) s) @ [CHR 0x27])"

fun py_repr :: "pyval \<Rightarrow> string" where
  "py_repr PNone = ''None''"
| "py_repr (PBool b) = (if b then ''True'' else ''False'')"
| "py_repr (PInt i) = str_int i"
| "py_repr (PStr s) = repr_str s"
| "py_repr (PObj s) = s"
| "py_repr (PList xs) = ''['' @ join_comma (map py_repr xs) @ '']''"
| "py_repr (PDict kvs) =
     ''{'' @ join_comma (map (\<lambda>(k, v). repr_str k @ '': '' @ py_repr v) kvs) @ ''}''"

definition py_str :: "pyval \<Rightarrow> string" where
  "py_str v = (case v of PStr s \<Rightarrow> s | _ \<Rightarrow> py_repr v)"

text \<open>
  \<open>a == b\<close>: \<open>True\<close> and \<open>False\<close> are the numbers 1 and 0, lists are equal item by item, and
  dictionaries (whose keys are distinct) when they have the same keys with equal values,
  in any order. An object is equal to itself only.
\<close>

fun py_num :: "pyval \<Rightarrow> int option" where
  "py_num (PInt i) = Some i"
| "py_num (PBool b) = Some (if b then 1 else 0)"
| "py_num v = None"

fun py_eq :: "pyval \<Rightarrow> pyval \<Rightarrow> bool" where
  "py_eq (PStr a) (PStr b) = (a = b)"
| "py_eq (PObj a) (PObj b) = (a = b)"
| "py_eq PNone PNone = True"
| "py_eq (PList xs) (PList ys) = list_all2 py_eq xs ys"
| "py_eq (PDict d) (PDict e) =
     (length d = length e \<and>
      list_all (\<lambda>(k, v). case map_of e k of None \<Rightarrow> False | Some w \<Rightarrow> py_eq v w) d)"
| "py_eq a b = (case py_num a of None \<Rightarrow> False | Some i \<Rightarrow> py_num b = Some i)"

text \<open>
  \<open>ApiProxy\<close>: the endpoint (its text), the request options (\<open>None\<close> unless a dictionary was
  given), whether \<open>handle_response\<close> can be called, and the queue of addresses fetched and not
  yet handed out.
\<close>

record api_state =
  a_key :: string
  a_options :: "(string \<times> pyval) list option"
  a_parser :: bool
  a_container :: "string list"

text \<open>
  \<open>ClashProxy\<close>. \<open>c_cpolicy\<close> is \<open>None\<close> for a policy that is not a number, and \<open>c_match\<close> for a
  predicate that cannot be called. \<open>c_nodes\<close> is \<open>itertools.cycle\<close> over a list: the list and
  the position of the element \<open>next()\<close> yields. \<open>c_configs\<close> is the memoised \<open>/configs\<close> answer.
\<close>

record clash_state =
  c_key :: string
  c_selector :: string
  c_cpolicy :: "int option"
  c_ts :: int
  c_match :: "(pyval \<Rightarrow> bool) option"
  c_secret :: pyval
  c_nodes :: "(pyval list \<times> nat) option"
  c_configs :: "(string \<times> pyval) list option"
  c_now :: "pyval option"

datatype provider =
    ApiProxy base_proxy api_state
  | ClashProxy base_proxy clash_state
  | RedisProxy base_proxy string
  | CustomProxy base_proxy pyval

fun base_of :: "provider \<Rightarrow> base_proxy" where
  "base_of (ApiProxy b a) = b"
| "base_of (ClashProxy b c) = b"
| "base_of (RedisProxy b k) = b"
| "base_of (CustomProxy b k) = b"

text \<open>
  The manager's cache scope: \<open>threading.local()\<close> holds one dictionary of attributes per
  thread; a bare \<open>object()\<close> has no attribute dictionary. The guard is
  \<open>contextlib.nullcontext()\<close> or a \<open>threading.Lock()\<close> (held or free).
\<close>

datatype scope = ThreadLocal "nat \<Rightarrow> string \<rightharpoonup> nat" | BareObject

datatype guard = NullContext | Lock bool

text \<open>
  The whole state: the interpreter's library, an idealised clock, the provider and lease
  objects (an object is known by its position in its list), the backends, the calls of
  user-supplied callbacks, and the manager's three attributes.

  The clock counts the whole seconds the code has slept. Every other step takes some time,
  but less than a second in all, so between two readings of \<open>time.time()\<close> lie the seconds
  slept in between and a positive fraction: for an integer \<open>t\<close> the difference is \<open>> t\<close>
  exactly when at least \<open>t\<close> seconds were slept, and \<open>< t\<close> exactly when fewer were. A timeout
  is \<open>None\<close> or an integer.

  The backends are scripts. \<open>http url\<close> lists what the next requests to \<open>url\<close> give, each
  \<open>None\<close> (a falsy response) or the addresses \<open>handle_response\<close> extracts from it; \<open>redis key\<close>
  lists what the next \<open>pop\<close>s of \<open>key\<close> give (the empty string when there is nothing to pop);
  \<open>clash_http key\<close> lists what the next requests to the controller give, each \<open>None\<close> (a
  failed attempt) or the JSON object of an ok response. When a script is used up the
  backend is empty: every further request fails.

  \<open>callables\<close> says what a user-supplied object, known by its \<open>str()\<close>, is: \<open>None\<close> when it
  cannot be called, and otherwise the truth value of what it returns when it is called with
  one argument (it is called so as a match predicate; it returns and changes nothing).
\<close>

record state =
  lib :: pylib
  clock :: int
  providers :: "provider list"
  leases :: "lease list"
  http :: "string \<Rightarrow> string list option list"
  redis :: "string \<Rightarrow> string list"
  clash_http :: "string \<Rightarrow> (string \<times> pyval) list option list"
  callables :: "string \<Rightarrow> (pyval \<Rightarrow> bool) option"
  calls :: "(string \<times> nat) list"
  m_local :: scope
  m_context :: guard
  m_container :: "string \<rightharpoonup> nat"

subsection \<open>\<open>ApiProxy\<close>\<close>

text \<open>
  The loop of \<open>ApiProxy.fetch\<close> after \<open>start = time.time()\<close>: whether \<open>handle_response\<close> can
  be called, the timeout (\<open>None\<close> is \<open>math.inf\<close>), the seconds slept, the script and the queue.
  A falsy response raises \<open>TimeoutError\<close> when \<open>time.time() - start > timeout\<close> and sleeps one
  second otherwise; a truthy one is given to \<open>handle_response\<close> (\<open>TypeError\<close> when that cannot
  be called), whose addresses are put on the queue.
\<close>

fun fetch_loop ::
  "bool \<Rightarrow> int option \<Rightarrow> int \<Rightarrow> string list option list \<Rightarrow> string list
     \<Rightarrow> unit outcome \<times> int \<times> string list option list \<times> string list" where
  "fetch_loop parser timeout el [] c =
     (case timeout of
        None \<Rightarrow> (Hangs, el, [], c)
      | Some t \<Rightarrow> (Raises TimeoutError, max el t, [], c))"
| "fetch_loop parser timeout el (None # script) c =
     (if (case timeout of None \<Rightarrow> False | Some t \<Rightarrow> t \<le> el)
      then (Raises TimeoutError, el, script, c)
      else fetch_loop parser timeout (el + 1) script c)"
| "fetch_loop parser timeout el (Some addrs # script) c =
     (if parser then (Returns (), el, script, c @ addrs) else (Raises TypeError, el, script, c))"

text \<open>A fetch that returns has used at least one response.\<close>

lemma fetch_loop_shorter:
  "fetch_loop parser timeout el script c = (Returns u, el', script', c')
     \<Longrightarrow> length script' < length script"
proof (induction script arbitrary: el)
  case Nil
  then show ?case by (simp split: option.splits)
next
  case (Cons r script)
  show ?case
  proof (cases r)
    case None
    with Cons show ?thesis by (fastforce split: if_splits)
  next
    case (Some addrs)
    with Cons.prems show ?thesis by (auto split: if_splits)
  qed
qed

text \<open>
  The address the requests of \<open>fetch\<close> go to, \<open>{"url": self.key, **options}\<close>: an \<open>url\<close> among
  the options replaces the key.
\<close>

definition api_url :: "api_state \<Rightarrow> string" where
  "api_url a =
     (case a_options a of
        None \<Rightarrow> a_key a
      | Some opts \<Rightarrow> (case map_of opts ''url'' of None \<Rightarrow> a_key a | Some v \<Rightarrow> py_str v))"

text \<open>
  \<open>ApiProxy.get\<close>: take an address from the queue; when the queue stays empty for a
  second, \<open>fetch\<close> (which fails with \<open>AttributeError\<close> when the options are not a dictionary)
  and try again. The result carries the provider, the clock and the script after the call.
  (\<open>fetch\<close> also adds a default \<open>method\<close> to the options dictionary, which no code modelled
  here reads; the dictionary is the one inside the caller's record.)
\<close>

function api_get ::
  "api_state \<Rightarrow> int option \<Rightarrow> int \<Rightarrow> string list option list
     \<Rightarrow> pyval outcome \<times> api_state \<times> int \<times> string list option list" where
  "api_get a timeout clk script =
     (case a_container a of
        x # xs \<Rightarrow> (Returns (PStr x), a\<lparr>a_container := xs\<rparr>, clk, script)
      | [] \<Rightarrow>
          (case a_options a of
             None \<Rightarrow> (Raises AttributeError, a, clk + 1, script)
           | Some opts \<Rightarrow>
               (case fetch_loop (a_parser a) timeout 0 script [] of
                  (Returns u, el, script', c') \<Rightarrow>
                     api_get (a\<lparr>a_container := c'\<rparr>) timeout (clk + 1 + el) script'
                | (Raises e, el, script', c') \<Rightarrow> (Raises e, a, clk + 1 + el, script')
                | (Hangs, el, script', c') \<Rightarrow> (Hangs, a, clk + 1 + el, script'))))"
  by pat_completeness auto
termination
  by (relation "measure (\<lambda>(a, timeout, clk, script). length script)")
     (auto dest: fetch_loop_shorter[OF sym])

declare api_get.simps [simp del]

subsection \<open>\<open>RedisProxy\<close>\<close>

text \<open>
  The loop of \<open>RedisProxy.get\<close>: while \<open>time.time() - start < timeout\<close>, pop; an empty answer
  sleeps one second, any other is returned. After the loop: \<open>TimeoutError\<close>.
\<close>

fun redis_loop ::
  "int option \<Rightarrow> int \<Rightarrow> string list \<Rightarrow> pyval outcome \<times> int \<times> string list" where
  "redis_loop timeout el [] =
     (case timeout of
        None \<Rightarrow> (Hangs, el, [])
      | Some t \<Rightarrow> (Raises TimeoutError, max el t, []))"
| "redis_loop timeout el (x # q) =
     (if (case timeout of None \<Rightarrow> False | Some t \<Rightarrow> \<not> el < t)
      then (Raises TimeoutError, el, x # q)
      else if x = [] then redis_loop timeout (el + 1) q
      else (Returns (PStr x), el, q))"

subsection \<open>\<open>ClashProxy\<close>\<close>

text \<open>
  \<open>_run_cmd\<close>: \<open>urljoin\<close> parses the key (and fails as \<open>urlparse\<close> does); then up to
  \<open>retry = 5\<close> attempts, each using one answer of the controller's script; the first ok
  response is returned, and five failures raise \<open>RuntimeError\<close>.
\<close>

fun run_cmd_tries :: "nat \<Rightarrow> 'r option list \<Rightarrow> 'r option \<times> 'r option list" where
  "run_cmd_tries 0 script = (None, script)"
| "run_cmd_tries (Suc n) [] = (None, [])"
| "run_cmd_tries (Suc n) (None # script) = run_cmd_tries n script"
| "run_cmd_tries (Suc n) (Some r # script) = (Some r, script)"

definition run_cmd :: "string \<Rightarrow> state \<Rightarrow> (string \<times> pyval) list outcome \<times> state" where
  "run_cmd key st =
     (case urlparse (lib st) key of
        Raises e \<Rightarrow> (Raises e, st)
      | Hangs \<Rightarrow> (Hangs, st)
      | Returns parsed \<Rightarrow>
          (case run_cmd_tries 5 (clash_http st key) of
             (None, script) \<Rightarrow>
               (Raises RuntimeError, st\<lparr>clash_http := (clash_http st)(key := script)\<rparr>)
           | (Some r, script) \<Rightarrow>
               (Returns r, st\<lparr>clash_http := (clash_http st)(key := script)\<rparr>)))"

text \<open>
  The \<open>configs\<close> property: the getter asks the controller when nothing truthy is memoised;
  the setter sends the change (one command, \<open>PUT\<close> or \<open>PATCH\<close>) and forgets the memoised
  answer; the deleter forgets it.
\<close>

definition configs_get ::
  "clash_state \<Rightarrow> state \<Rightarrow> (string \<times> pyval) list outcome \<times> clash_state \<times> state" where
  "configs_get c st =
     (case c_configs c of
        Some (kv # kvs) \<Rightarrow> (Returns (kv # kvs), c, st)
      | _ \<Rightarrow>
          (case run_cmd (c_key c) st of
             (Returns r, st') \<Rightarrow> (Returns r, c\<lparr>c_configs := Some r\<rparr>, st')
           | (Raises e, st') \<Rightarrow> (Raises e, c, st')
           | (Hangs, st') \<Rightarrow> (Hangs, c, st')))"

definition configs_set :: "clash_state \<Rightarrow> state \<Rightarrow> unit outcome \<times> clash_state \<times> state" where
  "configs_set c st =
     (case run_cmd (c_key c) st of
        (Returns r, st') \<Rightarrow> (Returns (), c\<lparr>c_configs := None\<rparr>, st')
      | (Raises e, st') \<Rightarrow> (Raises e, c, st')
      | (Hangs, st') \<Rightarrow> (Hangs, c, st'))"

text \<open>
  \<open>clear_cache(force)\<close>: the test is \<open>self.cpolicy != -1 and time.time() - self.ts > self.cpolicy\<close>,
  whose comparison raises \<open>TypeError\<close> for a policy that is not a number.
\<close>

definition clear_cache :: "bool \<Rightarrow> clash_state \<Rightarrow> state \<Rightarrow> clash_state outcome" where
  "clear_cache force c st =
     (if force then Returns (c\<lparr>c_nodes := None, c_configs := None\<rparr>)
      else (case c_cpolicy c of
              None \<Rightarrow> Raises TypeError
            | Some p \<Rightarrow>
                if p \<noteq> - 1 \<and> p \<le> clock st - c_ts c
                then Returns (c\<lparr>c_nodes := None, c_configs := None\<rparr>)
                else Returns c))"

text \<open>
  Modelled from the spec: the dotted-path lookup of a response (\<open>resp.get('a.b.c')\<close>), whose
  class is not among the sources: the path is split at its dots, the keys are followed
  through nested dictionaries, and the result is \<open>None\<close> when one is missing.
\<close>

fun split_dots :: "string \<Rightarrow> string list" where
  "split_dots [] = [[]]"
| "split_dots (c # cs) =
     (if c = CHR ''.'' then [] # split_dots cs
      else (case split_dots cs of [] \<Rightarrow> [[c]] | x # xs \<Rightarrow> (c # x) # xs))"

fun path_get :: "string list \<Rightarrow> pyval \<Rightarrow> pyval" where
  "path_get [] v = v"
| "path_get (k # ks) (PDict d) = path_get ks (dict_get d k)"
| "path_get (k # ks) v = PNone"

text \<open>
  The reordering of a node list: \<open>[*nodes[i + 1:], *nodes[:i + 1]]\<close> with
  \<open>i = nodes.index(now)\<close> when \<open>now in nodes\<close>, the list itself otherwise.
\<close>

definition index_of :: "pyval \<Rightarrow> pyval list \<Rightarrow> nat" where
  "index_of x xs = length (takeWhile (\<lambda>y. \<not> py_eq y x) xs)"

definition reorder :: "pyval \<Rightarrow> pyval list \<Rightarrow> pyval list" where
  "reorder now nodes =
     (if list_ex (\<lambda>y. py_eq y now) nodes
      then drop (index_of now nodes + 1) nodes @ take (index_of now nodes + 1) nodes
      else nodes)"

text \<open>
  The same two lines when the controller's \<open>all\<close> is not a list. In a string \<open>now in nodes\<close>
  looks for a substring (\<open>TypeError\<close> unless \<open>now\<close> is a string) and the slices are spread
  into one-character strings; in a dictionary it looks for a key (\<open>TypeError\<close> for an
  unhashable \<open>now\<close>) and a dictionary has no \<open>index\<close>; any other value is not iterable.
\<close>

fun find_sub :: "string \<Rightarrow> string \<Rightarrow> nat option" where
  "find_sub sub [] = (if sub = [] then Some 0 else None)"
| "find_sub sub (c # cs) =
     (if take (length sub) (c # cs) = sub then Some 0
      else (case find_sub sub cs of None \<Rightarrow> None | Some i \<Rightarrow> Some (Suc i)))"

definition chars_of :: "string \<Rightarrow> pyval list" where
  "chars_of s = map (\<lambda>c. PStr [c]) s"

definition rotate_nodes :: "pyval \<Rightarrow> pyval \<Rightarrow> pyval outcome" where
  "rotate_nodes now all =
     (case all of
        PList xs \<Rightarrow> Returns (PList (reorder now xs))
      | PStr s \<Rightarrow>
          (case now of
             PStr n \<Rightarrow>
               (case find_sub n s of
                  None \<Rightarrow> Returns (PStr s)
                | Some i \<Rightarrow> Returns (PList (chars_of (drop (i + 1) s) @ chars_of (take (i + 1) s))))
           | _ \<Rightarrow> Raises TypeError)
      | PDict d \<Rightarrow>
          (case now of
             PList ys \<Rightarrow> Raises TypeError
           | PDict e \<Rightarrow> Raises TypeError
           | PStr k \<Rightarrow> if k \<in> fst ` set d then Raises AttributeError else Returns (PDict d)
           | _ \<Rightarrow> Returns (PDict d))
      | _ \<Rightarrow> Raises TypeError)"

text \<open>
  \<open>list(filter(self.match, nodes))\<close>: what iterating over the nodes gives (the items of a
  list, the characters of a string, the keys of a dictionary), filtered. A predicate that
  cannot be called raises \<open>TypeError\<close> at the first item.
\<close>

definition iter_items :: "pyval \<Rightarrow> pyval list" where
  "iter_items v =
     (case v of
        PList xs \<Rightarrow> xs
      | PStr s \<Rightarrow> chars_of s
      | PDict d \<Rightarrow> map (\<lambda>(k, w). PStr k) d
      | _ \<Rightarrow> [])"

definition filter_nodes :: "(pyval \<Rightarrow> bool) option \<Rightarrow> pyval list \<Rightarrow> pyval list outcome" where
  "filter_nodes m xs =
     (case m of
        Some f \<Rightarrow> Returns (filter f xs)
      | None \<Rightarrow> if xs = [] then Returns [] else Raises TypeError)"

text \<open>
  \<open>ClashProxy.nodes(name)\<close>. An answer without the key \<open>proxies\<close> is returned as it is.
  Otherwise the nodes of the selector are reordered, their filtered copy becomes the new
  cycle, and the reordered nodes are returned.
\<close>

definition nodes ::
  "string \<Rightarrow> clash_state \<Rightarrow> state \<Rightarrow> pyval outcome \<times> clash_state \<times> state" where
  "nodes name c st =
     (case run_cmd (c_key c) st of
        (Raises e, st') \<Rightarrow> (Raises e, c, st')
      | (Hangs, st') \<Rightarrow> (Hangs, c, st')
      | (Returns data, st') \<Rightarrow>
          if ''proxies'' \<in> fst ` set data
          then (case rotate_nodes
                       (path_get (split_dots (''proxies.'' @ c_selector c @ ''.now'')) (PDict data))
                       (path_get (split_dots (''proxies.'' @ c_selector c @ ''.all'')) (PDict data)) of
                  Raises e \<Rightarrow> (Raises e, c, st')
                | Hangs \<Rightarrow> (Hangs, c, st')
                | Returns ns \<Rightarrow>
                    (case filter_nodes (c_match c) (iter_items ns) of
                       Raises e \<Rightarrow> (Raises e, c, st')
                     | Hangs \<Rightarrow> (Hangs, c, st')
                     | Returns cyc \<Rightarrow> (Returns ns, c\<lparr>c_nodes := Some (cyc, 0)\<rparr>, st')))
          else (Returns (PDict data), c, st'))"



text \<open>
  \<open>ClashProxy.get\<close>: the host of the controller and the port the controller's
  configuration gives for the provider's scheme.
\<close>

definition clash_get ::
  "base_proxy \<Rightarrow> clash_state \<Rightarrow> state \<Rightarrow> pyval outcome \<times> clash_state \<times> state" where
  "clash_get b c0 st =
     (case clear_cache False c0 st of
        Raises e \<Rightarrow> (Raises e, c0, st)
      | Hangs \<Rightarrow> (Hangs, c0, st)
      | Returns c \<Rightarrow>
          (case urlparse (lib st) (c_key c) of
             Raises e \<Rightarrow> (Raises e, c, st)
           | Hangs \<Rightarrow> (Hangs, c, st)
           | Returns key_parsed \<Rightarrow>
               (case configs_get c st of
                  (Raises e, c', st') \<Rightarrow> (Raises e, c', st')
                | (Hangs, c', st') \<Rightarrow> (Hangs, c', st')
                | (Returns configs, c', st') \<Rightarrow>
                    (Returns (PStr (str_opt (hostname_of key_parsed) @ '':'' @
                       py_str (if scheme b = ''http''
                               then py_or (dict_get configs ''mixed-port'') (dict_get configs ''port'')
                               else py_or (dict_get configs ''mixed-port'')
                                      (dict_get configs ''socks-port'')))),
                     c', st'))))"

subsection \<open>The acquisition of every provider\<close>

text \<open>
  The \<open>get\<close> each class defines, before any wrapping: the raw address the backend gives
  (\<open>CustomProxy\<close> gives its key, whatever it is), and the state after the call.
\<close>

definition raw_get :: "nat \<Rightarrow> int option \<Rightarrow> state \<Rightarrow> pyval outcome \<times> state" where
  "raw_get pid timeout st =
     (case providers st ! pid of
        CustomProxy b key \<Rightarrow> (Returns key, st)
      | RedisProxy b key \<Rightarrow>
          (case redis_loop timeout 0 (redis st key) of
             (r, el, q) \<Rightarrow> (r, st\<lparr>clock := clock st + el, redis := (redis st)(key := q)\<rparr>))
      | ApiProxy b a \<Rightarrow>
          (case api_get a timeout (clock st) (http st (api_url a)) of
             (r, a', clk, script) \<Rightarrow>
               (r, st\<lparr>clock := clk, providers := (providers st)[pid := ApiProxy b a'],
                       http := (http st)(api_url a := script)\<rparr>))
      | ClashProxy b c \<Rightarrow>
          (case clash_get b c st of
             (r, c', st') \<Rightarrow> (r, st'\<lparr>providers := (providers st')[pid := ClashProxy b c']\<rparr>)))"

text \<open>\<open>self.clear\<close> of a provider: the method of \<open>ClashProxy\<close>, or the empty one of the base.\<close>

fun clear_of :: "nat \<Rightarrow> provider \<Rightarrow> callback" where
  "clear_of pid (ClashProxy b c) = ClashClear pid"
| "clear_of pid p = BaseClear pid"

text \<open>
  \<open>fmt\<close> on any value: a falsy one gives the empty string, a string is formatted, and any
  other makes \<open>urlparse\<close> fail with \<open>AttributeError\<close>.
\<close>

definition fmt_value :: "pylib \<Rightarrow> base_proxy \<Rightarrow> pyval \<Rightarrow> string outcome" where
  "fmt_value py b v =
     (case v of
        PStr s \<Rightarrow> fmt py b (Some s)
      | PNone \<Rightarrow> fmt py b None
      | _ \<Rightarrow> if py_truthy v then Raises AttributeError else Returns [])"

text \<open>
  \<open>BaseProxy._when_get(raw_method)\<close>: call the raw method, format the address of the lease
  it gives, and set the lease's callbacks, threshold and owner from the provider. The new
  lease object is the last of \<open>leases\<close>; the result is its number.
\<close>

definition when_get ::
  "(nat \<Rightarrow> int option \<Rightarrow> state \<Rightarrow> pyval outcome \<times> state)
     \<Rightarrow> nat \<Rightarrow> int option \<Rightarrow> state \<Rightarrow> nat outcome \<times> state" where
  "when_get raw_method pid timeout st =
     (case raw_method pid timeout st of
        (Raises e, st') \<Rightarrow> (Raises e, st')
      | (Hangs, st') \<Rightarrow> (Hangs, st')
      | (Returns raw, st') \<Rightarrow>
          (let b = base_of (providers st' ! pid)
           in case fmt_value (lib st') b raw of
                Raises e \<Rightarrow> (Raises e, st')
              | Hangs \<Rightarrow> (Hangs, st')
              | Returns addr \<Rightarrow>
                  (Returns (length (leases st')),
                   st'\<lparr>leases := leases st' @
                          [\<lparr>proxy = Some addr, auth = p_auth b, recover = p_recover b,
                            clear = clear_of pid (providers st' ! pid),
                            threshold = p_threshold b, counter = 1, derive = Some pid,
                            rkey = None\<rparr>]\<rparr>)))"

text \<open>
  Modelled from the spec: the wiring of \<open>_when_get\<close>. The class decorator
  \<open>pandora.with_metaclass\<close> that installs it is not among the sources; the spec says that
  every provider formats the raw address through the one formatting rule before wrapping
  it in a lease, so the \<open>get\<close> a caller reaches is the raw \<open>get\<close> wrapped by \<open>_when_get\<close>.
\<close>

definition public_get :: "nat \<Rightarrow> int option \<Rightarrow> state \<Rightarrow> nat outcome \<times> state" where
  "public_get = when_get raw_get"

subsection \<open>Callbacks\<close>



subsection \<open>Building a provider from a configuration record\<close>

text \<open>
  Modelled from the spec: the binding of a record to a constructor. \<open>BaseProxy.build\<close> calls
  \<open>pandora.prepare\<close> with an argument the \<open>prepare\<close> among the sources does not take, so the
  binding follows the spec: the constructor gets the record's fields it accepts, the others
  are dropped, a missing field takes its default, and a missing required one (\<open>key\<close>) is a
  \<open>TypeError\<close>.

  The constructors check no type: a value is stored as it is and fails, if it does, where
  the code uses it. The settings that only ever appear inside a formatted string (scheme,
  user name, password, the key of an \<open>ApiProxy\<close> or \<open>RedisProxy\<close>) are kept as their text;
  a user name or password that is falsy is kept as \<open>None\<close>, which \<open>fmt\<close> treats alike. An
  object in a record is known by its \<open>str()\<close>, which is taken not to be empty.
\<close>

definition arg_text :: "(string \<times> pyval) list \<Rightarrow> string \<Rightarrow> string \<Rightarrow> string" where
  "arg_text d name dflt = (case map_of d name of None \<Rightarrow> dflt | Some v \<Rightarrow> py_str v)"

definition arg_cred :: "(string \<times> pyval) list \<Rightarrow> string \<Rightarrow> string option" where
  "arg_cred d name =
     (case map_of d name of
        None \<Rightarrow> None
      | Some (PStr s) \<Rightarrow> Some s
      | Some v \<Rightarrow> if py_truthy v then Some (py_str v) else None)"

text \<open>A number is an integer or a boolean (\<open>True\<close> is 1 and \<open>False\<close> is 0).\<close>

definition arg_threshold :: "(string \<times> pyval) list \<Rightarrow> threshold" where
  "arg_threshold d =
     (case map_of d ''threshold'' of
        None \<Rightarrow> Unbounded
      | Some v \<Rightarrow> (case py_num v of None \<Rightarrow> NotNumber | Some i \<Rightarrow> Bound i))"

definition arg_callback :: "state \<Rightarrow> (string \<times> pyval) list \<Rightarrow> string \<Rightarrow> callback \<Rightarrow> callback" where
  "arg_callback st d name dflt =
     (case map_of d name of
        None \<Rightarrow> dflt
      | Some (PObj f) \<Rightarrow> if callables st f = None then NotCallable else UserFn f
      | Some _ \<Rightarrow> NotCallable)"

text \<open>
  The arguments of \<open>BaseProxy.__init__\<close> as a subclass passes them on; \<open>creds\<close> says whether
  the subclass takes \<open>username\<close> and \<open>password\<close>, \<open>dflt\<close> is the recover callback the subclass
  installs when the record has none.
\<close>

definition base_args :: "state \<Rightarrow> (string \<times> pyval) list \<Rightarrow> bool \<Rightarrow> callback \<Rightarrow> base_proxy" where
  "base_args st d creds dflt =
     \<lparr>scheme = arg_text d ''scheme'' ''http'',
      username = (if creds then arg_cred d ''username'' else None),
      password = (if creds then arg_cred d ''password'' else None),
      p_auth = arg_callback st d ''auth'' NotCallable,
      p_threshold = arg_threshold d,
      p_recover = arg_callback st d ''recover'' dflt\<rparr>"

text \<open>
  The default match predicate of \<open>ClashProxy\<close>, \<open>str(x) not in ['DIRECT', 'REJECT']\<close>; what a
  record's \<open>match\<close> and \<open>cpolicy\<close> stand for (\<open>filter(None, ...)\<close> keeps the truthy items); and
  \<open>str.upper\<close> of the selector's name, on the letters \<open>a\<close> to \<open>z\<close>: no other character below
  256 becomes a letter of \<open>GLOBAL\<close>.
\<close>

definition default_match :: "pyval \<Rightarrow> bool" where
  "default_match x \<longleftrightarrow> py_str x \<noteq> ''DIRECT'' \<and> py_str x \<noteq> ''REJECT''"

definition arg_match :: "state \<Rightarrow> (string \<times> pyval) list \<Rightarrow> (pyval \<Rightarrow> bool) option" where
  "arg_match st d =
     (case map_of d ''match'' of
        None \<Rightarrow> Some default_match
      | Some PNone \<Rightarrow> Some py_truthy
      | Some (PObj f) \<Rightarrow> callables st f
      | Some _ \<Rightarrow> None)"

definition arg_cpolicy :: "(string \<times> pyval) list \<Rightarrow> int option" where
  "arg_cpolicy d = (case map_of d ''cpolicy'' of None \<Rightarrow> Some (- 1) | Some v \<Rightarrow> py_num v)"

definition upper_char :: "char \<Rightarrow> char" where
  "upper_char c = (if 97 \<le> code c \<and> code c \<le> 122 then char_of (code c - 32) else c)"

definition is_global :: "string \<Rightarrow> bool" where
  "is_global selector = (map upper_char selector = ''GLOBAL'')"

text \<open>
  \<open>ClashProxy.__init__\<close>: the key gets the prefix \<open>http://\<close> when it has none
  (\<open>AttributeError\<close> for a key that is not a string, which has no \<open>startswith\<close>), and a
  selector named \<open>GLOBAL\<close> sends the change of mode to the controller (\<open>AttributeError\<close> for a
  selector that is not a string, \<open>RuntimeError\<close> when the controller does not answer).
  \<open>pid\<close> is the number the new object will have; \<open>clash_new\<close> is the object after the
  assignments of the constructor.
\<close>

definition clash_new :: "state \<Rightarrow> (string \<times> pyval) list \<Rightarrow> string \<Rightarrow> string \<Rightarrow> clash_state" where
  "clash_new st d key selector =
     \<lparr>c_key = (if take 7 key = ''http://'' then key else ''http://'' @ key),
      c_selector = selector, c_cpolicy = arg_cpolicy d, c_ts = clock st,
      c_match = arg_match st d, c_secret = dict_get d ''secret'',
      c_nodes = None, c_configs = None, c_now = None\<rparr>"

definition clash_init :: "(string \<times> pyval) list \<Rightarrow> nat \<Rightarrow> state \<Rightarrow> provider outcome \<times> state" where
  "clash_init d pid st =
     (case map_of d ''key'' of
        None \<Rightarrow> (Raises TypeError, st)
      | Some (PStr key) \<Rightarrow>
          (case (case map_of d ''selector'' of None \<Rightarrow> PStr ''GLOBAL'' | Some v \<Rightarrow> v) of
             PStr selector \<Rightarrow>
               (if is_global selector
                then (case configs_set (clash_new st d key selector) st of
                        (Returns u, c', st') \<Rightarrow>
                          (Returns (ClashProxy (base_args st d False (ClashClear pid)) c'), st')
                      | (Raises e, c', st') \<Rightarrow> (Raises e, st')
                      | (Hangs, c', st') \<Rightarrow> (Hangs, st'))
                else (Returns (ClashProxy (base_args st d False (ClashClear pid))
                                (clash_new st d key selector)), st))
           | _ \<Rightarrow> (Raises AttributeError, st))
      | Some _ \<Rightarrow> (Raises AttributeError, st))"

text \<open>
  \<open>pandora.load_objects(obj["ref"])\<close> for the provider classes of this module, given by
  their dotted path or as the class object itself (any other string is taken to name
  nothing that can be imported), and the call of the class. \<open>RedisProxy\<close> spreads its
  options, \<open>Redis(**(options or {}))\<close>, which is a \<open>TypeError\<close> for a truthy value that is not
  a dictionary; \<open>ApiProxy\<close> installs its default \<open>handle_response\<close> when the record's is falsy.
\<close>

datatype provider_class = ApiClass | ClashClass | RedisClass | CustomClass

definition load_objects :: "pyval \<Rightarrow> provider_class outcome" where
  "load_objects r =
     (case r of
        PStr s \<Rightarrow>
          (if s = ''bricks.lib.proxies.ApiProxy'' then Returns ApiClass
           else if s = ''bricks.lib.proxies.ClashProxy'' then Returns ClashClass
           else if s = ''bricks.lib.proxies.RedisProxy'' then Returns RedisClass
           else if s = ''bricks.lib.proxies.CustomProxy'' then Returns CustomClass
           else Raises ImportError)
      | PObj s \<Rightarrow>
          (if s = ''<class 'bricks.lib.proxies.ApiProxy'>'' then Returns ApiClass
           else if s = ''<class 'bricks.lib.proxies.ClashProxy'>'' then Returns ClashClass
           else if s = ''<class 'bricks.lib.proxies.RedisProxy'>'' then Returns RedisClass
           else if s = ''<class 'bricks.lib.proxies.CustomProxy'>'' then Returns CustomClass
           else Raises AttributeError)
      | _ \<Rightarrow> Raises AttributeError)"

definition spreadable :: "pyval \<Rightarrow> bool" where
  "spreadable v = (case v of PDict kvs \<Rightarrow> True | _ \<Rightarrow> \<not> py_truthy v)"

definition can_call :: "state \<Rightarrow> pyval \<Rightarrow> bool" where
  "can_call st v = (case v of PObj f \<Rightarrow> callables st f \<noteq> None | _ \<Rightarrow> False)"

definition construct ::
  "provider_class \<Rightarrow> (string \<times> pyval) list \<Rightarrow> nat \<Rightarrow> state \<Rightarrow> provider outcome \<times> state" where
  "construct cls d pid st =
     (case cls of
        ClashClass \<Rightarrow> clash_init d pid st
      | CustomClass \<Rightarrow>
          (case map_of d ''key'' of
             None \<Rightarrow> (Raises TypeError, st)
           | Some key \<Rightarrow> (Returns (CustomProxy (base_args st d True NotCallable) key), st))
      | RedisClass \<Rightarrow>
          (case map_of d ''key'' of
             None \<Rightarrow> (Raises TypeError, st)
           | Some key \<Rightarrow>
               if spreadable (dict_get d ''options'')
               then (Returns (RedisProxy (base_args st d True (RedisAdd pid)) (py_str key)), st)
               else (Raises TypeError, st))
      | ApiClass \<Rightarrow>
          (case map_of d ''key'' of
             None \<Rightarrow> (Raises TypeError, st)
           | Some key \<Rightarrow>
               (Returns (ApiProxy (base_args st d True (ApiPutBack pid))
                  \<lparr>a_key = py_str key,
                   a_options = (case dict_get d ''options'' of PDict kvs \<Rightarrow> Some kvs | _ \<Rightarrow> None),
                   a_parser = (\<not> py_truthy (dict_get d ''handle_response'') \<or>
                               can_call st (dict_get d ''handle_response'')),
                   a_container = []\<rparr>), st)))"

section \<open>The manager\<close>

text \<open>\<open>hasattr\<close>/\<open>getattr\<close>, \<open>setattr\<close> and \<open>delattr\<close> on the cache scope, for the calling thread.
  A bare \<open>object()\<close> has no attribute and takes none: \<open>setattr\<close> and \<open>delattr\<close> raise
  \<open>AttributeError\<close> (\<open>None\<close> here).\<close>

fun get_attr :: "scope \<Rightarrow> nat \<Rightarrow> string \<Rightarrow> nat option" where
  "get_attr (ThreadLocal f) tid k = f tid k"
| "get_attr BareObject tid k = None"

fun set_attr :: "scope \<Rightarrow> nat \<Rightarrow> string \<Rightarrow> nat \<Rightarrow> scope option" where
  "set_attr (ThreadLocal f) tid k v = Some (ThreadLocal (f(tid := (f tid)(k \<mapsto> v))))"
| "set_attr BareObject tid k v = None"


text \<open>
  \<open>with self._context:\<close> around a body. A free lock is taken and given back when the body
  returns or raises; a held lock is waited for.
\<close>

definition with_context :: "(state \<Rightarrow> 'a outcome \<times> state) \<Rightarrow> state \<Rightarrow> 'a outcome \<times> state" where
  "with_context body st =
     (case m_context st of
        NullContext \<Rightarrow> body st
      | Lock held \<Rightarrow>
          if held then (Hangs, st)
          else (case body (st\<lparr>m_context := Lock True\<rparr>) of
                  (Hangs, st') \<Rightarrow> (Hangs, st')
                | (r, st') \<Rightarrow> (r, st'\<lparr>m_context := Lock False\<rparr>)))"

text \<open>\<open>Manager.build\<close>\<close>

definition build :: "config \<Rightarrow> state \<Rightarrow> nat outcome \<times> state" where
  "build obj st =
     (let rk = get_rkey (lib st) obj
      in case m_container st rk of
           Some pid \<Rightarrow> (Returns pid, st)
         | None \<Rightarrow>
             (case obj of
                Instance pid \<Rightarrow> (Returns pid, st\<lparr>m_container := (m_container st)(rk \<mapsto> pid)\<rparr>)
              | Record d \<Rightarrow>
                  (case map_of d ''ref'' of
                     None \<Rightarrow> (Raises KeyError, st)
                   | Some r \<Rightarrow>
                       (case load_objects r of
                          Raises e \<Rightarrow> (Raises e, st)
                        | Hangs \<Rightarrow> (Hangs, st)
                        | Returns cls \<Rightarrow>
                            (case construct cls d (length (providers st)) st of
                               (Raises e, st') \<Rightarrow> (Raises e, st')
                             | (Hangs, st') \<Rightarrow> (Hangs, st')
                             | (Returns p, st') \<Rightarrow>
                                 (Returns (length (providers st')),
                                  st'\<lparr>providers := providers st' @ [p],
                                       m_container := (m_container st')(rk \<mapsto> length (providers st'))\<rparr>))))))"

text \<open>
  The part of \<open>Manager.get\<close> under \<open>if not hasattr(self._local, rkey)\<close>: build the provider,
  call its \<open>get\<close>, replace a \<open>TimeoutError\<close> by the empty lease, and store a truthy lease.
\<close>

definition acquire :: "nat \<Rightarrow> config \<Rightarrow> int option \<Rightarrow> state \<Rightarrow> unit outcome \<times> state" where
  "acquire tid obj timeout st =
     (case build obj st of
        (Raises e, st1) \<Rightarrow> (Raises e, st1)
      | (Hangs, st1) \<Rightarrow> (Hangs, st1)
      | (Returns pins, st1) \<Rightarrow>
          (case public_get pins timeout st1 of
             (Raises e, st2) \<Rightarrow> if e = TimeoutError then (Returns (), st2) else (Raises e, st2)
           | (Hangs, st2) \<Rightarrow> (Hangs, st2)
           | (Returns lid, st2) \<Rightarrow>
               if lease_bool (leases st2 ! lid)
               then (case set_attr (m_local st2) tid (get_rkey (lib st) obj) lid of
                       None \<Rightarrow> (Raises AttributeError, st2)
                     | Some sc \<Rightarrow> (Returns (), st2\<lparr>m_local := sc\<rparr>))
               else (Returns (), st2)))"

text \<open>A new empty lease, \<open>Proxy()\<close>, as the value returned.\<close>

definition new_empty :: "state \<Rightarrow> nat outcome \<times> state" where
  "new_empty st = (Returns (length (leases st)), st\<lparr>leases := leases st @ [Proxy_empty]\<rparr>)"

text \<open>
  The loop of \<open>Manager.get\<close> over the candidates, for the thread \<open>tid\<close>. After the
  acquisition (if one was needed) the cached lease, if any, gets its \<open>rkey\<close> and is returned
  when truthy; an empty \<open>Proxy()\<close> stands in otherwise and the loop goes on.
\<close>

fun get_loop :: "nat \<Rightarrow> config list \<Rightarrow> int option \<Rightarrow> state \<Rightarrow> nat outcome \<times> state" where
  "get_loop tid [] timeout st = new_empty st"
| "get_loop tid (obj # objs) timeout st =
     (case (if get_attr (m_local st) tid (get_rkey (lib st) obj) = None
            then acquire tid obj timeout st else (Returns (), st)) of
        (Raises e, st1) \<Rightarrow> (Raises e, st1)
      | (Hangs, st1) \<Rightarrow> (Hangs, st1)
      | (Returns u, st1) \<Rightarrow>
          (case get_attr (m_local st1) tid (get_rkey (lib st) obj) of
             None \<Rightarrow> get_loop tid objs timeout st1
           | Some lid \<Rightarrow>
               (let st2 = st1\<lparr>leases := (leases st1)
                              [lid := (leases st1 ! lid)\<lparr>rkey := Some (get_rkey (lib st) obj)\<rparr>]\<rparr>
                in if lease_bool (leases st1 ! lid) then (Returns lid, st2)
                   else get_loop tid objs timeout st2)))"

definition Manager_get :: "nat \<Rightarrow> config list \<Rightarrow> int option \<Rightarrow> state \<Rightarrow> nat outcome \<times> state" where
  "Manager_get tid objs timeout st = with_context (get_loop tid objs timeout) st"



text \<open>\<open>Manager.now\<close>\<close>

fun now_loop :: "nat \<Rightarrow> config list \<Rightarrow> state \<Rightarrow> nat outcome \<times> state" where
  "now_loop tid [] st = new_empty st"
| "now_loop tid (obj # objs) st =
     (case get_attr (m_local st) tid (get_rkey (lib st) obj) of
        None \<Rightarrow> now_loop tid objs st
      | Some lid \<Rightarrow> (Returns lid, st))"

definition Manager_now :: "nat \<Rightarrow> config list \<Rightarrow> state \<Rightarrow> nat outcome \<times> state" where
  "Manager_now tid objs st = with_context (now_loop tid objs) st"

text \<open>\<open>Manager.set_mode\<close> and the attributes \<open>Manager.__init__\<close> sets.\<close>

definition set_mode :: "int \<Rightarrow> state \<Rightarrow> state" where
  "set_mode mode st =
     (if mode = 0 then st\<lparr>m_local := ThreadLocal (\<lambda>tid. Map.empty), m_context := NullContext\<rparr>
      else st\<lparr>m_local := BareObject, m_context := Lock False\<rparr>)"

definition Manager_init :: "state \<Rightarrow> state" where
  "Manager_init st =
     st\<lparr>m_local := ThreadLocal (\<lambda>tid. Map.empty), m_context := NullContext,
        m_container := Map.empty\<rparr>"

text \<open>
  The default mode, and the one \<open>set_mode(0)\<close> selects: a thread-local scope and no lock.
\<close>

definition isolated :: "state \<Rightarrow> bool" where
  "isolated st =
     (case m_local st of ThreadLocal f \<Rightarrow> m_context st = NullContext | BareObject \<Rightarrow> False)"

section \<open>Concrete inputs\<close>

text \<open>
  States and configurations used to evaluate the model: a manager just created, with
  no provider, no lease and empty backends; the record of a \<open>CustomProxy\<close>; and a state
  whose only provider object is a \<open>RedisProxy\<close> on an empty store.
\<close>

definition fresh_state :: state where
  "fresh_state =
     \<lparr>lib = py_seed0, clock = 0, providers = [], leases = [],
      http = (\<lambda>url. []), redis = (\<lambda>key. []), clash_http = (\<lambda>key. []),
      callables = (\<lambda>f. None), calls = [],
      m_local = ThreadLocal (\<lambda>tid. Map.empty), m_context = NullContext,
      m_container = Map.empty\<rparr>"

definition custom_record :: config where
  "custom_record =
     Record [(''ref'', PStr ''bricks.lib.proxies.CustomProxy''), (''key'', PStr ''127.0.0.1:7890'')]"

definition plain_base :: base_proxy where
  "plain_base =
     \<lparr>scheme = ''http'', username = None, password = None, p_auth = NotCallable,
      p_threshold = Unbounded, p_recover = NotCallable\<rparr>"

definition redis_state :: state where
  "redis_state = fresh_state\<lparr>providers := [RedisProxy plain_base ''proxies'']\<rparr>"

definition custom_state :: state where
  "custom_state = fresh_state\<lparr>providers := [CustomProxy plain_base (PStr ''127.0.0.1:7890'')]\<rparr>"


text \<open>
  A \<open>ClashProxy\<close> on the selector \<open>GLOBAL\<close> with the default match predicate, and a controller
  whose next answer to \<open>/proxies\<close> names \<open>B\<close> as the active node of the given node list.
\<close>

definition clash_example :: clash_state where
  "clash_example =
     \<lparr>c_key = ''http://127.0.0.1:9090'', c_selector = ''GLOBAL'', c_cpolicy = Some (- 1),
      c_ts = 0, c_match = Some default_match, c_secret = PNone, c_nodes = None,
      c_configs = None, c_now = None\<rparr>"

definition proxies_answer :: "pyval list \<Rightarrow> (string \<times> pyval) list" where
  "proxies_answer all =
     [(''proxies'', PDict [(''GLOBAL'', PDict [(''now'', PStr ''B''), (''all'', PList all)])])]"

definition clash_world :: "pyval list \<Rightarrow> state" where
  "clash_world all = fresh_state\<lparr>clash_http := (\<lambda>key. [Some (proxies_answer all)])\<rparr>"

section \<open>Relations between states and outcomes\<close>

text \<open>
  The parts of the state a manager operation reads to decide what to do: the library, the
  lease objects and the manager's own attributes.
\<close>

definition same_core :: "state \<Rightarrow> state \<Rightarrow> bool" where
  "same_core st st' \<longleftrightarrow>
     lib st' = lib st \<and> leases st' = leases st \<and> m_local st' = m_local st \<and>
     m_context st' = m_context st \<and> m_container st' = m_container st \<and>
     providers st' = providers st"

text \<open>
  A provider's \<open>get\<close> and a callback may change the provider objects, but not their number,
  their base settings or their class.
\<close>

definition same_manager :: "state \<Rightarrow> state \<Rightarrow> bool" where
  "same_manager st st' \<longleftrightarrow>
     lib st' = lib st \<and> leases st' = leases st \<and> m_local st' = m_local st \<and>
     m_context st' = m_context st \<and> m_container st' = m_container st \<and>
     length (providers st') = length (providers st) \<and>
     (\<forall>i. base_of (providers st' ! i) = base_of (providers st ! i) \<and>
          clear_of i (providers st' ! i) = clear_of i (providers st ! i))"

text \<open>An outcome other than a \<open>TimeoutError\<close>.\<close>

definition no_timeout :: "'a outcome \<Rightarrow> bool" where
  "no_timeout x \<longleftrightarrow> x \<noteq> Raises TimeoutError"

text \<open>A \<open>with\<close> block that ends has run its body on the state, up to the guard.\<close>

definition guard_only :: "state \<Rightarrow> state \<Rightarrow> bool" where
  "guard_only st st' \<longleftrightarrow> (\<exists>g. st' = st\<lparr>m_context := g\<rparr>)"

section \<open>Usage protocol of a lease\<close>










section \<open>Address formatting\<close>

text \<open>
  An input of the shape \<open>scheme://authority\<close>: the scheme starts with a letter and is made of
  scheme characters; the authority is not empty, has none of \<open>/?#\<close>, no tab, carriage return
  or line feed, and passes the two checks of \<open>urlsplit\<close>.
\<close>

lemma scheme_char_not_colon: "scheme_char c \<Longrightarrow> c \<noteq> CHR '':''"
  by (auto simp: scheme_char_def ascii_alpha_def ascii_digit_def code_def)

lemma scheme_char_safe: "scheme_char c \<Longrightarrow> \<not> unsafe_byte c"
  by (auto simp: scheme_char_def ascii_alpha_def ascii_digit_def unsafe_byte_def code_def)

lemma ascii_alpha_not_space: "ascii_alpha c \<Longrightarrow> \<not> c0_or_space c"
  by (auto simp: ascii_alpha_def c0_or_space_def)

lemma ascii_alpha_isascii: "ascii_alpha c \<Longrightarrow> isascii c"
  by (auto simp: ascii_alpha_def isascii_def)

lemma lower_eq_Nil [simp]: "lower s = [] \<longleftrightarrow> s = []"
  by (simp add: lower_def)

lemma split_scheme_shape:
  assumes "s \<noteq> []" and "ascii_alpha (hd s)" and "\<forall>c \<in> set s. scheme_char c"
  shows "split_scheme (s @ CHR '':'' # rest) = (lower s, rest)"
proof -
  have nc: "\<forall>c \<in> set s. c \<noteq> CHR '':''"
    using assms(3) scheme_char_not_colon by blast
  have tw: "takeWhile (\<lambda>x. x \<noteq> CHR '':'') (s @ CHR '':'' # rest) = s"
    using nc by (simp add: takeWhile_append2)
  have dw: "dropWhile (\<lambda>x. x \<noteq> CHR '':'') (s @ CHR '':'' # rest) = CHR '':'' # rest"
    using nc by (simp add: dropWhile_append2)
  have hd: "hd (s @ CHR '':'' # rest) = hd s"
    using assms(1) by simp
  have hc: "hd s \<noteq> CHR '':''"
    using nc assms(1) by (metis hd_in_set)
  show ?thesis
    unfolding split_scheme_def tw dw hd
    using assms hc ascii_alpha_isascii by simp
qed

lemma urlsplit_scheme_authority:
  assumes "s \<noteq> []" and "ascii_alpha (hd s)" and "\<forall>c \<in> set s. scheme_char c"
    and "\<forall>c \<in> set a. \<not> netloc_delim c \<and> \<not> unsafe_byte c"
    and "brackets_ok py a" and "checknetloc py a"
  shows "urlsplit py (s @ ''://'' @ a) =
           Returns \<lparr>sr_scheme = lower s, sr_netloc = a, sr_path = [], sr_query = [],
                    sr_fragment = []\<rparr>"
proof -
  let ?u = "s @ ''://'' @ a"
  have strip: "dropWhile c0_or_space ?u = ?u"
    using assms(1,2) ascii_alpha_not_space by (cases s) auto
  have safe: "filter (\<lambda>c. \<not> unsafe_byte c) ?u = ?u"
    using assms(3,4) scheme_char_safe by (auto simp: unsafe_byte_def code_def filter_id_conv)
  have sch: "split_scheme ?u = (lower s, ''//'' @ a)"
    using split_scheme_shape[OF assms(1-3), of "''//'' @ a"] by simp
  have tw: "takeWhile (\<lambda>c. \<not> netloc_delim c) a = a"
    using assms(4) by (simp add: takeWhile_eq_all_conv)
  have dw: "dropWhile (\<lambda>c. \<not> netloc_delim c) a = []"
    using assms(4) by simp
  have nl: "splitnetloc (''//'' @ a) = (a, [])"
    by (simp add: splitnetloc_def tw dw)
  show ?thesis
    using strip safe sch nl assms(5,6) by (simp add: urlsplit_def Let_def)
qed

lemma urlparse_scheme_authority:
  assumes "s \<noteq> []" and "ascii_alpha (hd s)" and "\<forall>c \<in> set s. scheme_char c"
    and "\<forall>c \<in> set a. \<not> netloc_delim c \<and> \<not> unsafe_byte c"
    and "brackets_ok py a" and "checknetloc py a"
  shows "urlparse py (s @ ''://'' @ a) =
           Returns \<lparr>scheme_of = lower s, netloc = a, path = [], params = [], query = [],
                    fragment = []\<rparr>"
  using urlsplit_scheme_authority[OF assms] by (simp add: urlparse_def)

lemma fmt_scheme_authority:
  assumes "s \<noteq> []" and "ascii_alpha (hd s)" and "\<forall>c \<in> set s. scheme_char c"
    and "a \<noteq> []" and "\<forall>c \<in> set a. \<not> netloc_delim c \<and> \<not> unsafe_byte c"
    and "brackets_ok py a" and "checknetloc py a"
  shows "fmt py b (Some (s @ ''://'' @ a)) = Returns (scheme b @ ''://'' @ prefix_of b @ a)"
  using urlparse_scheme_authority[OF assms(1-3,5-7)] assms(1,4)
  by (simp add: fmt_def truthy_def)

text \<open>
  Claim C3, as the code has it. For an input \<open>scheme://authority\<close>, \<open>fmt\<close> replaces the scheme
  by the provider's, prepends the provider's credentials (when both are non-empty) and keeps
  the input's authority as it is. The statement covers an authority without embedded
  credentials (no \<open>@\<close>), where the output is \<open>scheme://[user:pass@]host:port\<close>, and a provider
  without credentials, where credentials embedded in the input are preserved.
\<close>

theorem fmt_scheme_host:
  assumes "s \<noteq> []" and "ascii_alpha (hd s)" and "\<forall>c \<in> set s. scheme_char c"
    and "a \<noteq> []" and "\<forall>c \<in> set a. \<not> netloc_delim c \<and> \<not> unsafe_byte c"
    and "brackets_ok py a" and "checknetloc py a"
    and "CHR ''@'' \<notin> set a \<or> prefix_of b = []"
  shows "fmt py b (Some (s @ ''://'' @ a)) = Returns (scheme b @ ''://'' @ prefix_of b @ a)"
  using fmt_scheme_authority[OF assms(1-7)] .

theorem fmt_scheme_host_witness:
  "fmt py_seed0
     \<lparr>scheme = ''socks5'', username = Some ''u'', password = Some ''p'', p_auth = NotCallable,
      p_threshold = Unbounded, p_recover = NotCallable\<rparr>
     (Some ''http://1.2.3.4:8080'') = Returns ''socks5://u:p@1.2.3.4:8080''"
proof -
  let ?b = "\<lparr>scheme = ''socks5'', username = Some ''u'', password = Some ''p'',
             p_auth = NotCallable, p_threshold = Unbounded, p_recover = NotCallable\<rparr>"
  have 1: "''http'' \<noteq> []" and 2: "ascii_alpha (hd ''http'')"
    and 3: "\<forall>c \<in> set ''http''. scheme_char c"
    and 4: "''1.2.3.4:8080'' \<noteq> []"
    and 5: "\<forall>c \<in> set ''1.2.3.4:8080''. \<not> netloc_delim c \<and> \<not> unsafe_byte c"
    and 6: "brackets_ok py_seed0 ''1.2.3.4:8080''"
    and 7: "checknetloc py_seed0 ''1.2.3.4:8080''"
    and 8: "CHR ''@'' \<notin> set ''1.2.3.4:8080'' \<or> prefix_of ?b = []"
    by (simp_all add: ascii_alpha_def scheme_char_def ascii_digit_def code_def netloc_delim_def
        unsafe_byte_def brackets_ok_def checknetloc_def isascii_def)
  show ?thesis
    using fmt_scheme_host[OF 1 2 3 4 5 6 7 8]
    by (simp add: prefix_of_def truthy_def str_opt_def)
qed

text \<open>
  Credentials embedded in the input are not dropped: a provider without credentials returns
  \<open>http://a:b@1.2.3.4:8080\<close> with its \<open>a:b\<close>.
\<close>

theorem fmt_drops_embedded_credentials_counterexample:
  "fmt py_seed0
     \<lparr>scheme = ''http'', username = None, password = None, p_auth = NotCallable,
      p_threshold = Unbounded, p_recover = NotCallable\<rparr>
     (Some ''socks5://a:b@1.2.3.4:8080'') = Returns ''http://a:b@1.2.3.4:8080''"
proof -
  let ?b = "\<lparr>scheme = ''http'', username = None, password = None,
             p_auth = NotCallable, p_threshold = Unbounded, p_recover = NotCallable\<rparr>"
  have "fmt py_seed0 ?b (Some (''socks5'' @ ''://'' @ ''a:b@1.2.3.4:8080'')) =
          Returns (scheme ?b @ ''://'' @ prefix_of ?b @ ''a:b@1.2.3.4:8080'')"
    by (rule fmt_scheme_authority)
       (simp_all add: ascii_alpha_def scheme_char_def ascii_digit_def code_def netloc_delim_def
          unsafe_byte_def brackets_ok_def checknetloc_def isascii_def)
  then show ?thesis
    by (simp add: prefix_of_def truthy_def)
qed

text \<open>
  Claim C2 at a failing input. A provider with credentials \<open>u:p\<close> formats
  \<open>http://1.2.3.4:8080\<close> to \<open>http://u:p@1.2.3.4:8080\<close>, and formats that again to
  \<open>http://u:p@u:p@1.2.3.4:8080\<close>: the third branch takes every input with a scheme and a
  network location, so the branch written for an address that carries credentials is never
  reached.
\<close>

lemma fmt_fourth_branch_unreachable:
  assumes "urlparse py raw = Returns r" and "truthy (username_of r)"
  shows "netloc r \<noteq> []"
  using assms(2)
  by (auto simp: username_of_def userinfo_def rpartition_at_def truthy_def)

theorem fmt_twice_with_credentials:
  "fmt py_seed0
     \<lparr>scheme = ''http'', username = Some ''u'', password = Some ''p'', p_auth = NotCallable,
      p_threshold = Unbounded, p_recover = NotCallable\<rparr>
     (Some ''http://1.2.3.4:8080'') = Returns ''http://u:p@1.2.3.4:8080'' \<and>
   fmt py_seed0
     \<lparr>scheme = ''http'', username = Some ''u'', password = Some ''p'', p_auth = NotCallable,
      p_threshold = Unbounded, p_recover = NotCallable\<rparr>
     (Some ''http://u:p@1.2.3.4:8080'') = Returns ''http://u:p@u:p@1.2.3.4:8080''"
proof -
  let ?b = "\<lparr>scheme = ''http'', username = Some ''u'', password = Some ''p'',
             p_auth = NotCallable, p_threshold = Unbounded, p_recover = NotCallable\<rparr>"
  have p: "prefix_of ?b = ''u:p@''"
    by (simp add: prefix_of_def truthy_def str_opt_def)
  have "fmt py_seed0 ?b (Some (''http'' @ ''://'' @ ''1.2.3.4:8080'')) =
          Returns (scheme ?b @ ''://'' @ prefix_of ?b @ ''1.2.3.4:8080'')"
    by (rule fmt_scheme_authority)
       (simp_all add: ascii_alpha_def scheme_char_def ascii_digit_def code_def netloc_delim_def
          unsafe_byte_def brackets_ok_def checknetloc_def isascii_def)
  moreover have "fmt py_seed0 ?b (Some (''http'' @ ''://'' @ ''u:p@1.2.3.4:8080'')) =
          Returns (scheme ?b @ ''://'' @ prefix_of ?b @ ''u:p@1.2.3.4:8080'')"
    by (rule fmt_scheme_authority)
       (simp_all add: ascii_alpha_def scheme_char_def ascii_digit_def code_def netloc_delim_def
          unsafe_byte_def brackets_ok_def checknetloc_def isascii_def)
  ultimately show ?thesis
    using p by simp
qed

section \<open>Configuration keys\<close>

lemmas sip_eval = siphash13_def absorb_def single_round_def half_round_def rotl64_def

lemmas rkey_eval = get_rkey_def py_seed0_def json_str_def json_char_def code_def hash_seed0_def
  sip_eval str_int_def str_nat.simps digit_char_def

lemma rkey_custom_ref_key:
  "get_rkey py_seed0
     (Record [(''ref'', PStr ''bricks.lib.proxies.CustomProxy''), (''key'', PStr ''127.0.0.1:7890'')])
   = ''2733477971088842678''"
  by (simp add: rkey_eval)

lemma rkey_custom_key_ref:
  "get_rkey py_seed0
     (Record [(''key'', PStr ''127.0.0.1:7890''), (''ref'', PStr ''bricks.lib.proxies.CustomProxy'')])
   = ''189213132452072230''"
  by (simp add: rkey_eval)

text \<open>
  Claim C7, as the code has it. The key of a declarative record is the decimal text of the
  hash of its JSON text, so two records with the same JSON text (the same fields in the
  same order) have the same key; and every live provider has the one key made from the
  hash of the class \<open>BaseProxy\<close>.
\<close>

theorem get_rkey_deterministic:
  "(json_dumps (PDict d1) = json_dumps (PDict d2) \<longrightarrow>
      get_rkey py (Record d1) = get_rkey py (Record d2)) \<and>
   get_rkey py (Record d1) = str_int (hash_str py (json_dumps (PDict d1))) \<and>
   get_rkey py (Instance p) = get_rkey py (Instance q) \<and>
   get_rkey py (Instance p) = str_int (hash_BaseProxy py)"
  by (simp add: get_rkey_def)

theorem get_rkey_deterministic_witness:
  "json_dumps (PDict [(''key'', PStr ''x'')]) = json_dumps (PDict [(''key'', PObj ''x'')]) \<and>
   get_rkey py_seed0 (Record [(''key'', PStr ''x'')]) =
     get_rkey py_seed0 (Record [(''key'', PObj ''x'')]) \<and>
   get_rkey py_seed0 (Instance 0) = get_rkey py_seed0 (Instance 1)"
  using get_rkey_deterministic[of "[(''key'', PStr ''x'')]" "[(''key'', PObj ''x'')]" py_seed0 0 1]
  by simp

text \<open>
  Two records that are equal as mappings but list their fields in a different order have
  different JSON texts and, with hash randomisation disabled, different keys.
\<close>

theorem get_rkey_field_order_counterexample:
  "map_of [(''ref'', PStr ''bricks.lib.proxies.CustomProxy''), (''key'', PStr ''127.0.0.1:7890'')] =
   map_of [(''key'', PStr ''127.0.0.1:7890''), (''ref'', PStr ''bricks.lib.proxies.CustomProxy'')] \<and>
   json_dumps (PDict [(''ref'', PStr ''bricks.lib.proxies.CustomProxy''), (''key'', PStr ''127.0.0.1:7890'')]) \<noteq>
   json_dumps (PDict [(''key'', PStr ''127.0.0.1:7890''), (''ref'', PStr ''bricks.lib.proxies.CustomProxy'')]) \<and>
   get_rkey py_seed0
     (Record [(''ref'', PStr ''bricks.lib.proxies.CustomProxy''), (''key'', PStr ''127.0.0.1:7890'')]) \<noteq>
   get_rkey py_seed0
     (Record [(''key'', PStr ''127.0.0.1:7890''), (''ref'', PStr ''bricks.lib.proxies.CustomProxy'')])"
proof -
  have "map_of [(''ref'', PStr ''bricks.lib.proxies.CustomProxy''), (''key'', PStr ''127.0.0.1:7890'')] =
        map_of [(''key'', PStr ''127.0.0.1:7890''), (''ref'', PStr ''bricks.lib.proxies.CustomProxy'')]"
    by (rule ext) simp
  moreover have
    "json_dumps (PDict [(''ref'', PStr ''bricks.lib.proxies.CustomProxy''), (''key'', PStr ''127.0.0.1:7890'')]) \<noteq>
     json_dumps (PDict [(''key'', PStr ''127.0.0.1:7890''), (''ref'', PStr ''bricks.lib.proxies.CustomProxy'')])"
    by (simp add: json_str_def json_char_def code_def)
  ultimately show ?thesis
    by (simp only: rkey_custom_ref_key rkey_custom_key_ref) simp
qed

section \<open>What the provider operations leave alone\<close>

lemma urlparse_raises: "urlparse py url = Raises e \<Longrightarrow> e = ValueError"
  by (auto simp: urlparse_def urlsplit_def Let_def split: prod.splits if_splits outcome.splits)

lemma run_cmd_core: "run_cmd key st = (r, st') \<Longrightarrow> same_core st st'"
  by (auto simp: run_cmd_def same_core_def split: prod.splits option.splits outcome.splits)

lemma run_cmd_no_timeout: "run_cmd key st = (r, st') \<Longrightarrow> r \<noteq> Raises TimeoutError"
  by (auto simp: run_cmd_def split: prod.splits option.splits outcome.splits
      dest: urlparse_raises)

lemma configs_get_core: "configs_get c st = (r, c', st') \<Longrightarrow> same_core st st'"
  by (auto simp: configs_get_def same_core_def split: option.splits list.splits prod.splits outcome.splits
      dest!: run_cmd_core)

lemma configs_get_no_timeout: "configs_get c st = (r, c', st') \<Longrightarrow> r \<noteq> Raises TimeoutError"
  by (auto simp: configs_get_def split: option.splits list.splits prod.splits outcome.splits
      dest!: run_cmd_no_timeout)

lemma configs_set_core: "configs_set c st = (r, c', st') \<Longrightarrow> same_core st st'"
  by (auto simp: configs_set_def same_core_def split: prod.splits outcome.splits dest!: run_cmd_core)

lemma configs_set_no_timeout: "configs_set c st = (r, c', st') \<Longrightarrow> r \<noteq> Raises TimeoutError"
  by (auto simp: configs_set_def split: prod.splits outcome.splits dest!: run_cmd_no_timeout)




lemma clash_get_core: "clash_get b c st = (r, c', st') \<Longrightarrow> same_core st st'"
  by (auto simp: clash_get_def same_core_def
      split: option.splits prod.splits outcome.splits if_splits
      dest!: configs_get_core)

lemma same_manager_refl [simp]: "same_manager st st"
  by (simp add: same_manager_def)

lemma same_manager_trans:
  "same_manager st st1 \<Longrightarrow> same_manager st1 st2 \<Longrightarrow> same_manager st st2"
  by (simp add: same_manager_def)

lemma same_core_manager: "same_core st st' \<Longrightarrow> same_manager st st'"
  by (simp add: same_core_def same_manager_def)

lemma update_same_kind:
  assumes "base_of p' = base_of (ps ! pid)" and "\<forall>i. clear_of i p' = clear_of i (ps ! pid)"
  shows "base_of (ps[pid := p'] ! i) = base_of (ps ! i) \<and>
         clear_of i (ps[pid := p'] ! i) = clear_of i (ps ! i)"
proof (cases "i = pid \<and> pid < length ps")
  case True
  then show ?thesis using assms by simp
next
  case False
  then have "ps[pid := p'] ! i = ps ! i"
    by (cases "pid < length ps") (auto simp: nth_list_update list_update_beyond)
  then show ?thesis by simp
qed

lemma raw_get_manager: "raw_get pid timeout st = (r, st') \<Longrightarrow> same_manager st st'"
proof (cases "providers st ! pid")
  case (ApiProxy b a)
  assume "raw_get pid timeout st = (r, st')"
  with ApiProxy obtain a' clk script where
    st': "st' = st\<lparr>clock := clk, providers := (providers st)[pid := ApiProxy b a'],
                  http := (http st)(api_url a := script)\<rparr>"
    by (auto simp: raw_get_def split: prod.splits)
  have "\<forall>i. base_of ((providers st)[pid := ApiProxy b a'] ! i) = base_of (providers st ! i) \<and>
            clear_of i ((providers st)[pid := ApiProxy b a'] ! i) = clear_of i (providers st ! i)"
    using update_same_kind[of "ApiProxy b a'" "providers st" pid] ApiProxy by simp
  then show ?thesis
    unfolding st' by (simp add: same_manager_def)
next
  case (ClashProxy b c)
  assume "raw_get pid timeout st = (r, st')"
  with ClashProxy obtain c' st1 where
    g: "clash_get b c st = (r, c', st1)"
    and st': "st' = st1\<lparr>providers := (providers st1)[pid := ClashProxy b c']\<rparr>"
    by (auto simp: raw_get_def split: prod.splits)
  have core: "same_core st st1" using clash_get_core[OF g] .
  then have p: "providers st1 = providers st" by (simp add: same_core_def)
  have "\<forall>i. base_of ((providers st)[pid := ClashProxy b c'] ! i) = base_of (providers st ! i) \<and>
            clear_of i ((providers st)[pid := ClashProxy b c'] ! i) = clear_of i (providers st ! i)"
    using update_same_kind[of "ClashProxy b c'" "providers st" pid] ClashProxy by simp
  then show ?thesis
    unfolding st' using core p by (simp add: same_manager_def same_core_def)
next
  case (RedisProxy b key)
  assume "raw_get pid timeout st = (r, st')"
  with RedisProxy show ?thesis
    by (auto simp: raw_get_def same_manager_def split: prod.splits)
next
  case (CustomProxy b key)
  assume "raw_get pid timeout st = (r, st')"
  with CustomProxy show ?thesis
    by (auto simp: raw_get_def same_manager_def)
qed

text \<open>
  The wrapped \<open>get\<close> adds one lease object when it returns, and none otherwise; the new
  lease carries the formatted address.
\<close>

lemma when_get_Returns:
  assumes "when_get raw_method pid timeout st = (Returns lid, st')"
  shows "\<exists>raw st1 addr.
           raw_method pid timeout st = (Returns raw, st1) \<and>
           fmt_value (lib st1) (base_of (providers st1 ! pid)) raw = Returns addr \<and>
           lid = length (leases st1) \<and>
           st' = st1\<lparr>leases := leases st1 @
                   [\<lparr>proxy = Some addr, auth = p_auth (base_of (providers st1 ! pid)),
                     recover = p_recover (base_of (providers st1 ! pid)),
                     clear = clear_of pid (providers st1 ! pid),
                     threshold = p_threshold (base_of (providers st1 ! pid)), counter = 1,
                     derive = Some pid, rkey = None\<rparr>]\<rparr>"
  using assms
  by (auto simp: when_get_def Let_def split: prod.splits outcome.splits)

lemma when_get_not_Returns:
  assumes "when_get raw_method pid timeout st = (r, st')" and "\<forall>lid. r \<noteq> Returns lid"
  shows "\<exists>x. raw_method pid timeout st = (x, st')"
  using assms
  by (auto simp: when_get_def Let_def split: prod.splits outcome.splits)

lemma public_get_frame:
  assumes "public_get pid timeout st = (r, st')"
  shows "lib st' = lib st \<and> m_local st' = m_local st \<and> m_context st' = m_context st \<and>
         m_container st' = m_container st \<and> length (providers st') = length (providers st) \<and>
         (case r of Returns lid \<Rightarrow> lid = length (leases st) \<and> length (leases st') = Suc lid \<and>
                                    take lid (leases st') = leases st
          | _ \<Rightarrow> leases st' = leases st)"
proof (cases "\<exists>lid. r = Returns lid")
  case True
  then obtain lid where r: "r = Returns lid" by blast
  from when_get_Returns[OF assms[unfolded public_get_def r]]
  obtain raw st1 l where g: "raw_get pid timeout st = (Returns raw, st1)"
    and lid: "lid = length (leases st1)" and st': "st' = st1\<lparr>leases := leases st1 @ [l]\<rparr>"
    by blast
  from raw_get_manager[OF g] show ?thesis
    unfolding r st' lid by (simp add: same_manager_def)
next
  case False
  then have "\<forall>lid. r \<noteq> Returns lid" by blast
  from when_get_not_Returns[OF assms[unfolded public_get_def] this]
  obtain x where "raw_get pid timeout st = (x, st')" by blast
  from raw_get_manager[OF this] False show ?thesis
    by (cases r) (auto simp: same_manager_def)
qed


section \<open>Building providers\<close>

lemma no_timeout_simps [simp]:
  "no_timeout (Returns v)" "no_timeout Hangs" "no_timeout (Raises e) \<longleftrightarrow> e \<noteq> TimeoutError"
  by (simp_all add: no_timeout_def)

lemma clash_init_frame:
  assumes "clash_init d pid st = (r, st')"
  shows "same_core st st' \<and> no_timeout r"
proof (cases "\<exists>key selector. map_of d ''key'' = Some (PStr key) \<and>
                (case map_of d ''selector'' of None \<Rightarrow> PStr ''GLOBAL'' | Some v \<Rightarrow> v) = PStr selector \<and>
                is_global selector")
  case True
  then obtain key selector where k: "map_of d ''key'' = Some (PStr key)"
    and s: "(case map_of d ''selector'' of None \<Rightarrow> PStr ''GLOBAL'' | Some v \<Rightarrow> v) = PStr selector"
    and g: "is_global selector" by blast
  obtain r1 c1 st1 where cs: "configs_set (clash_new st d key selector) st = (r1, c1, st1)"
    by (cases "configs_set (clash_new st d key selector) st") auto
  from assms k s g cs have "st' = st1" and "no_timeout r"
    using configs_set_no_timeout[OF cs]
    by (auto simp: clash_init_def split: outcome.splits)
  with configs_set_core[OF cs] show ?thesis by simp
next
  case False
  with assms show ?thesis
    by (auto simp: clash_init_def same_core_def split: option.splits pyval.splits if_splits)
qed

lemma construct_frame:
  assumes "construct cls d pid st = (r, st')"
  shows "same_core st st' \<and> no_timeout r"
proof (cases cls)
  case ClashClass
  with assms show ?thesis using clash_init_frame by (simp add: construct_def)
next
  case ApiClass
  with assms show ?thesis
    by (auto simp: construct_def same_core_def split: option.splits)
next
  case RedisClass
  with assms show ?thesis
    by (auto simp: construct_def same_core_def split: option.splits if_splits)
next
  case CustomClass
  with assms show ?thesis
    by (auto simp: construct_def same_core_def split: option.splits)
qed

lemma no_timeout_load_objects [simp]: "no_timeout (load_objects r)"
  by (auto simp: load_objects_def split: pyval.splits)

text \<open>
  \<open>Manager.build\<close> never raises \<open>TimeoutError\<close>, leaves the leases and the cache scope alone,
  keeps the provider objects there are, and answers from the registry when the key is
  registered.
\<close>

lemma build_frame:
  assumes "build obj st = (r, st')"
  shows "no_timeout r \<and> lib st' = lib st \<and> leases st' = leases st \<and>
         m_local st' = m_local st \<and> m_context st' = m_context st \<and>
         length (providers st) \<le> length (providers st') \<and>
         take (length (providers st)) (providers st') = providers st"
proof (cases "m_container st (get_rkey (lib st) obj)")
  case (Some pid)
  with assms show ?thesis by (auto simp: build_def)
next
  case None
  show ?thesis
  proof (cases obj)
    case (Instance pid)
    with assms None show ?thesis by (auto simp: build_def)
  next
    case (Record d)
    show ?thesis
    proof (cases "map_of d ''ref''")
      case N: None
      with assms None Record show ?thesis by (auto simp: build_def)
    next
      case (Some ref)
      show ?thesis
      proof (cases "load_objects ref")
        case (Returns cls)
        obtain r1 st1 where c: "construct cls d (length (providers st)) st = (r1, st1)"
          by (cases "construct cls d (length (providers st)) st") auto
        from construct_frame[OF c] have core: "same_core st st1" and nt: "no_timeout r1" by auto
        from assms None Record Some Returns c core nt show ?thesis
          by (cases r1) (auto simp: build_def same_core_def)
      next
        case (Raises e)
        have "no_timeout (load_objects ref)" by simp
        with Raises have "e \<noteq> TimeoutError" by simp
        with assms None Record Some Raises show ?thesis by (auto simp: build_def)
      next
        case Hangs
        with assms None Record Some show ?thesis by (auto simp: build_def)
      qed
    qed
  qed
qed

lemma build_memoized:
  "m_container st (get_rkey (lib st) obj) = Some pid \<Longrightarrow> build obj st = (Returns pid, st)"
  by (simp add: build_def)

lemma build_registers:
  assumes "build obj st = (Returns pid, st')"
  shows "m_container st' (get_rkey (lib st) obj) = Some pid"
  using assms
  by (auto simp: build_def Let_def
      split: option.splits config.splits outcome.splits prod.splits)

section \<open>Acquisition through a provider\<close>

lemmas fmt_eval = fmt_def urlparse_def urlsplit_def split_scheme_def splitnetloc_def
  brackets_ok_def checknetloc_def c0_or_space_def unsafe_byte_def code_def isascii_def
  ascii_alpha_def ascii_digit_def scheme_char_def netloc_delim_def partition_at_def
  truthy_def prefix_of_def str_opt_def uses_params_def Let_def

lemma fmt_plain_host_port:
  "fmt py_seed0 plain_base (Some ''127.0.0.1:7890'') = Returns ''http://127.0.0.1:7890''"
  by (simp add: fmt_eval plain_base_def)

text \<open>
  Claim C4. When the \<open>get\<close> a caller reaches returns a lease, the provider's raw \<open>get\<close>
  returned a raw address, \<open>fmt\<close> with the provider's settings returned its formatted form,
  and that is the address of the lease.
\<close>

theorem public_get_formats:
  assumes "public_get pid timeout st = (Returns lid, st')"
  shows "\<exists>raw st1 addr.
           raw_get pid timeout st = (Returns raw, st1) \<and>
           fmt_value (lib st) (base_of (providers st ! pid)) raw = Returns addr \<and>
           proxy (leases st' ! lid) = Some addr"
proof -
  from when_get_Returns[OF assms[unfolded public_get_def]]
  obtain raw st1 addr l where g: "raw_get pid timeout st = (Returns raw, st1)"
    and f: "fmt_value (lib st1) (base_of (providers st1 ! pid)) raw = Returns addr"
    and lid: "lid = length (leases st1)"
    and st': "st' = st1\<lparr>leases := leases st1 @ [l]\<rparr>" and l: "proxy l = Some addr"
    by force
  from raw_get_manager[OF g] have "lib st1 = lib st"
    and "base_of (providers st1 ! pid) = base_of (providers st ! pid)"
    by (simp_all add: same_manager_def)
  with f g show ?thesis
    unfolding st' lid using l by auto
qed

theorem public_get_formats_witness:
  "\<exists>raw st1 addr.
     raw_get 0 None custom_state = (Returns raw, st1) \<and>
     fmt_value (lib custom_state) (base_of (providers custom_state ! 0)) raw = Returns addr \<and>
     proxy (leases (snd (public_get 0 None custom_state)) ! 0) = Some addr"
proof -
  have "fst (public_get 0 None custom_state) = Returns 0"
    by (simp add: public_get_def when_get_def raw_get_def custom_state_def fresh_state_def
        fmt_value_def fmt_plain_host_port)
  then have "public_get 0 None custom_state = (Returns 0, snd (public_get 0 None custom_state))"
    by (metis prod.collapse)
  from public_get_formats[OF this] show ?thesis .
qed

section \<open>\<open>Manager.get\<close>\<close>




text \<open>
  One candidate whose provider times out: nothing is stored for it and the loop goes on
  with the candidates that remain, from the state the failed \<open>get\<close> left.
\<close>

lemma get_loop_timeout_step:
  assumes "get_attr (m_local st) tid (get_rkey (lib st) obj) = None"
    and "build obj st = (Returns pins, st1)"
    and "public_get pins timeout st1 = (Raises TimeoutError, st2)"
  shows "get_loop tid (obj # rest) timeout st = get_loop tid rest timeout st2"
proof -
  have a: "acquire tid obj timeout st = (Returns (), st2)"
    using assms(2,3) by (simp add: acquire_def)
  have "m_local st2 = m_local st"
    using build_frame[OF assms(2)] public_get_frame[OF assms(3)] by simp
  with assms(1) have "get_attr (m_local st2) tid (get_rkey (lib st) obj) = None" by simp
  with assms(1) a show ?thesis by simp
qed




lemma rkey_instance: "get_rkey py_seed0 (Instance pid) = ''8760153402371''"
  by (simp add: get_rkey_def py_seed0_def str_int_def str_nat.simps digit_char_def)

lemma redis_state_build:
  "build (Instance 0) redis_state =
     (Returns 0, redis_state\<lparr>m_container := [''8760153402371'' \<mapsto> 0]\<rparr>)"
  by (simp add: build_def rkey_instance redis_state_def fresh_state_def)





lemma Manager_get_isolated:
  "isolated st \<Longrightarrow> Manager_get tid objs timeout st = get_loop tid objs timeout st"
  by (auto simp: isolated_def Manager_get_def with_context_def split: scope.splits)

lemma get_loop_cached:
  assumes "get_attr (m_local st) tid (get_rkey (lib st) obj) = Some lid"
    and "lease_bool (leases st ! lid)"
  shows "get_loop tid (obj # rest) timeout st =
           (Returns lid,
            st\<lparr>leases := (leases st)[lid := (leases st ! lid)\<lparr>rkey := Some (get_rkey (lib st) obj)\<rparr>]\<rparr>)"
  using assms by simp

lemma get_loop_acquired:
  assumes "get_attr (m_local st) tid (get_rkey (lib st) obj) = None"
    and "m_local st = ThreadLocal f"
    and "build obj st = (Returns pins, st1)"
    and "public_get pins timeout st1 = (Returns lid, st2)"
    and "lease_bool (leases st2 ! lid)"
  shows "get_loop tid (obj # rest) timeout st =
           (Returns lid,
            st2\<lparr>m_local := ThreadLocal (f(tid := (f tid)(get_rkey (lib st) obj \<mapsto> lid))),
                 leases := (leases st2)[lid := (leases st2 ! lid)\<lparr>rkey := Some (get_rkey (lib st) obj)\<rparr>]\<rparr>)"
proof -
  have m: "m_local st2 = ThreadLocal f"
    using build_frame[OF assms(3)] public_get_frame[OF assms(4)] assms(2) by simp
  have a: "acquire tid obj timeout st =
             (Returns (), st2\<lparr>m_local := ThreadLocal (f(tid := (f tid)(get_rkey (lib st) obj \<mapsto> lid)))\<rparr>)"
    using assms(3,4,5) m by (simp add: acquire_def)
  show ?thesis
    using assms(1,5) a by simp
qed

lemma get_loop_empty_step:
  assumes "get_attr (m_local st) tid (get_rkey (lib st) obj) = None"
    and "build obj st = (Returns pins, st1)"
    and "public_get pins timeout st1 = (Returns lid, st2)"
    and "\<not> lease_bool (leases st2 ! lid)"
  shows "get_loop tid (obj # rest) timeout st = get_loop tid rest timeout st2"
proof -
  have a: "acquire tid obj timeout st = (Returns (), st2)"
    using assms(2,3,4) by (simp add: acquire_def)
  have "m_local st2 = m_local st"
    using build_frame[OF assms(2)] public_get_frame[OF assms(3)] by simp
  with assms(1) have "get_attr (m_local st2) tid (get_rkey (lib st) obj) = None" by simp
  with assms(1) a show ?thesis by simp
qed

lemma isolated_after_acquisition:
  assumes "isolated st" and "build obj st = (r1, st1)" and "public_get pins timeout st1 = (r2, st2)"
  shows "isolated st2"
  using build_frame[OF assms(2)] public_get_frame[OF assms(3)] assms(1)
  by (auto simp: isolated_def split: scope.splits)

text \<open>
  The steps of \<open>Manager.get\<close> for a manager in its default (isolated) mode, where it
  does what claim C6 says. With \<open>k\<close> the key of the first
  candidate: a truthy lease cached under \<open>k\<close> is returned, and nothing but its \<open>rkey\<close>
  changes; otherwise the provider is built, or taken from the registry when \<open>k\<close> is
  registered, and a truthy lease from its \<open>get\<close> is stored under \<open>k\<close> and returned; when
  that \<open>get\<close> times out or gives an empty lease, the result is that of the remaining
  candidates; and with no candidate the result is a new empty lease.
\<close>

theorem Manager_get_first_nonempty:
  assumes "isolated st"
  shows
    "(get_attr (m_local st) tid (get_rkey (lib st) obj) = Some lid \<and> lease_bool (leases st ! lid) \<longrightarrow>
        Manager_get tid (obj # rest) timeout st =
          (Returns lid,
           st\<lparr>leases := (leases st)[lid := (leases st ! lid)\<lparr>rkey := Some (get_rkey (lib st) obj)\<rparr>]\<rparr>)) \<and>
     (m_container st (get_rkey (lib st) obj) = Some pid \<longrightarrow> build obj st = (Returns pid, st)) \<and>
     (build obj st = (Returns pins, st1) \<longrightarrow> m_container st1 (get_rkey (lib st) obj) = Some pins) \<and>
     (get_attr (m_local st) tid (get_rkey (lib st) obj) = None \<and>
      build obj st = (Returns pins, st1) \<and> public_get pins timeout st1 = (Returns new, st2) \<and>
      lease_bool (leases st2 ! new) \<longrightarrow>
        (\<exists>st3. Manager_get tid (obj # rest) timeout st = (Returns new, st3) \<and>
               get_attr (m_local st3) tid (get_rkey (lib st) obj) = Some new \<and>
               proxy (leases st3 ! new) = proxy (leases st2 ! new))) \<and>
     (get_attr (m_local st) tid (get_rkey (lib st) obj) = None \<and>
      build obj st = (Returns pins, st1) \<and>
      (public_get pins timeout st1 = (Raises TimeoutError, st2) \<or>
       public_get pins timeout st1 = (Returns new, st2) \<and> \<not> lease_bool (leases st2 ! new)) \<longrightarrow>
        Manager_get tid (obj # rest) timeout st = Manager_get tid rest timeout st2) \<and>
     Manager_get tid [] timeout st =
       (Returns (length (leases st)), st\<lparr>leases := leases st @ [Proxy_empty]\<rparr>)"
proof (intro conjI impI)
  assume "get_attr (m_local st) tid (get_rkey (lib st) obj) = Some lid \<and> lease_bool (leases st ! lid)"
  then show "Manager_get tid (obj # rest) timeout st =
          (Returns lid,
           st\<lparr>leases := (leases st)[lid := (leases st ! lid)\<lparr>rkey := Some (get_rkey (lib st) obj)\<rparr>]\<rparr>)"
    using get_loop_cached[of st tid obj lid rest timeout] Manager_get_isolated[OF assms] by simp
next
  assume "m_container st (get_rkey (lib st) obj) = Some pid"
  then show "build obj st = (Returns pid, st)" by (rule build_memoized)
next
  assume "build obj st = (Returns pins, st1)"
  then show "m_container st1 (get_rkey (lib st) obj) = Some pins" by (rule build_registers)
next
  assume a: "get_attr (m_local st) tid (get_rkey (lib st) obj) = None \<and>
      build obj st = (Returns pins, st1) \<and> public_get pins timeout st1 = (Returns new, st2) \<and>
      lease_bool (leases st2 ! new)"
  from assms obtain f where f: "m_local st = ThreadLocal f"
    by (auto simp: isolated_def split: scope.splits)
  from a have new: "new = length (leases st1)" and len: "length (leases st2) = Suc new"
    using public_get_frame[of pins timeout st1 "Returns new" st2] by simp_all
  have "get_loop tid (obj # rest) timeout st =
           (Returns new,
            st2\<lparr>m_local := ThreadLocal (f(tid := (f tid)(get_rkey (lib st) obj \<mapsto> new))),
                 leases := (leases st2)[new := (leases st2 ! new)\<lparr>rkey := Some (get_rkey (lib st) obj)\<rparr>]\<rparr>)"
    using a f by (intro get_loop_acquired) auto
  then show "\<exists>st3. Manager_get tid (obj # rest) timeout st = (Returns new, st3) \<and>
               get_attr (m_local st3) tid (get_rkey (lib st) obj) = Some new \<and>
               proxy (leases st3 ! new) = proxy (leases st2 ! new)"
    using Manager_get_isolated[OF assms] len by simp
next
  assume a: "get_attr (m_local st) tid (get_rkey (lib st) obj) = None \<and>
      build obj st = (Returns pins, st1) \<and>
      (public_get pins timeout st1 = (Raises TimeoutError, st2) \<or>
       public_get pins timeout st1 = (Returns new, st2) \<and> \<not> lease_bool (leases st2 ! new))"
  then obtain r2 where g: "public_get pins timeout st1 = (r2, st2)" by blast
  have iso: "isolated st2"
    using isolated_after_acquisition[OF assms _ g] a by blast
  have "get_loop tid (obj # rest) timeout st = get_loop tid rest timeout st2"
    using a get_loop_timeout_step get_loop_empty_step by blast
  then show "Manager_get tid (obj # rest) timeout st = Manager_get tid rest timeout st2"
    using Manager_get_isolated[OF assms] Manager_get_isolated[OF iso] by simp
next
  show "Manager_get tid [] timeout st =
       (Returns (length (leases st)), st\<lparr>leases := leases st @ [Proxy_empty]\<rparr>)"
    using Manager_get_isolated[OF assms] by (simp add: new_empty_def)
qed

lemmas build_eval = build_def load_objects_def construct_def arg_text_def arg_cred_def
  arg_threshold_def arg_callback_def base_args_def
  custom_record_def rkey_custom_ref_key rkey_instance

lemmas get_eval = public_get_def when_get_def raw_get_def fmt_value_def lease_bool_def Let_def
  fmt_plain_host_port[unfolded plain_base_def]

lemmas state_eval = redis_state_def custom_state_def fresh_state_def plain_base_def

text \<open>
  Two candidates: a live \<open>RedisProxy\<close> whose store is empty, so that its \<open>get\<close> times out
  after one second, and the record of a \<open>CustomProxy\<close>. The lease returned is the second
  provider's.
\<close>

theorem Manager_get_first_nonempty_witness:
  "\<exists>st'. Manager_get 0 [Instance 0, custom_record] (Some 1) redis_state = (Returns 0, st') \<and>
         get_attr (m_local st') 0 (get_rkey py_seed0 custom_record) = Some 0 \<and>
         proxy (leases st' ! 0) = Some ''http://127.0.0.1:7890''"
proof -
  let ?st1 = "redis_state\<lparr>m_container := [''8760153402371'' \<mapsto> 0]\<rparr>"
  let ?st2 = "?st1\<lparr>clock := 1, redis := (redis ?st1)(''proxies'' := [])\<rparr>"
  let ?st3 = "snd (build custom_record ?st2)"
  let ?st4 = "snd (public_get 1 (Some 1) ?st3)"
  have iso1: "isolated redis_state" and iso2: "isolated ?st2"
    by (simp_all add: isolated_def state_eval)
  have c1: "get_attr (m_local redis_state) 0 (get_rkey (lib redis_state) (Instance 0)) = None"
    by (simp add: state_eval)
  have g1: "public_get 0 (Some 1) ?st1 = (Raises TimeoutError, ?st2)"
    by (simp add: get_eval state_eval)
  have step1: "Manager_get 0 [Instance 0, custom_record] (Some 1) redis_state =
               Manager_get 0 [custom_record] (Some 1) ?st2"
    using Manager_get_first_nonempty[OF iso1, where tid = 0 and obj = "Instance 0"
        and pins = 0 and ?st1.0 = ?st1 and timeout = "Some 1" and ?st2.0 = ?st2
        and rest = "[custom_record]"]
      c1 redis_state_build g1
    by blast
  have k: "get_rkey (lib ?st2) custom_record = ''2733477971088842678''"
    by (simp add: state_eval custom_record_def rkey_custom_ref_key)
  have c2: "get_attr (m_local ?st2) 0 (get_rkey (lib ?st2) custom_record) = None"
    unfolding k by (simp add: state_eval)
  have "fst (build custom_record ?st2) = Returns 1"
    by (simp add: build_eval state_eval)
  then have b2: "build custom_record ?st2 = (Returns 1, ?st3)"
    by (metis prod.collapse)
  have "fst (public_get 1 (Some 1) ?st3) = Returns 0"
    by (simp add: build_eval get_eval state_eval)
  then have g2: "public_get 1 (Some 1) ?st3 = (Returns 0, ?st4)"
    by (metis prod.collapse)
  have l: "lease_bool (leases ?st4 ! 0)" and p: "proxy (leases ?st4 ! 0) = Some ''http://127.0.0.1:7890''"
    by (simp_all add: build_eval get_eval state_eval)
  from Manager_get_first_nonempty[OF iso2, where tid = 0 and obj = custom_record
        and pins = 1 and ?st1.0 = ?st3 and timeout = "Some 1" and ?st2.0 = ?st4
        and new = 0 and rest = "[]"]
      c2 b2 g2 l
  obtain st' where "Manager_get 0 [custom_record] (Some 1) ?st2 = (Returns 0, st')"
    and "get_attr (m_local st') 0 (get_rkey (lib ?st2) custom_record) = Some 0"
    and "proxy (leases st' ! 0) = proxy (leases ?st4 ! 0)"
    by blast
  with step1 p k show ?thesis
    by (auto simp: state_eval)
qed

section \<open>\<open>Manager.clear\<close> followed by \<open>Manager.get\<close>\<close>

lemma guard_only_fields:
  "guard_only st st' \<Longrightarrow>
     lib st' = lib st \<and> leases st' = leases st \<and> m_local st' = m_local st \<and>
     providers st' = providers st \<and> m_container st' = m_container st"
  by (auto simp: guard_only_def)

lemma with_context_ended:
  assumes "with_context body st = (r, st')" and "r \<noteq> Hangs"
  shows "\<exists>s s'. body s = (r, s') \<and> guard_only st s \<and> guard_only s' st'"
proof (cases "m_context st")
  case NullContext
  with assms have "body st = (r, st')" by (simp add: with_context_def)
  moreover have "guard_only st st" and "guard_only st' st'"
    by (auto simp: guard_only_def intro: exI[of _ "m_context st"] exI[of _ "m_context st'"])
  ultimately show ?thesis by blast
next
  case (Lock held)
  with assms have nh: "\<not> held" by (auto simp: with_context_def)
  obtain r1 s1 where b: "body (st\<lparr>m_context := Lock True\<rparr>) = (r1, s1)"
    by (cases "body (st\<lparr>m_context := Lock True\<rparr>)") auto
  with assms Lock nh have "r1 = r" and "st' = s1\<lparr>m_context := Lock False\<rparr>"
    by (cases r1; auto simp: with_context_def)+
  with b show ?thesis
    by (auto simp: guard_only_def)
qed



text \<open>
  An acquisition for a key that is not cached either stores nothing, or stores a lease
  object made during the acquisition, which is truthy.
\<close>

lemma acquire_result:
  assumes "acquire tid obj timeout st = (Returns u, st')"
  shows "lib st' = lib st \<and> length (leases st) \<le> length (leases st') \<and>
         (m_local st' = m_local st \<or>
          (\<exists>lid sc. set_attr (m_local st) tid (get_rkey (lib st) obj) lid = Some sc \<and>
                     m_local st' = sc \<and> length (leases st) \<le> lid \<and>
                     lease_bool (leases st' ! lid)))"
proof -
  obtain r1 st1 where b: "build obj st = (r1, st1)" by (cases "build obj st") auto
  with assms obtain pins where r1: "r1 = Returns pins"
    by (cases r1) (auto simp: acquire_def)
  obtain r2 st2 where g: "public_get pins timeout st1 = (r2, st2)"
    by (cases "public_get pins timeout st1") auto
  from build_frame[OF b] have f1: "lib st1 = lib st" "leases st1 = leases st"
    "m_local st1 = m_local st" by simp_all
  from public_get_frame[OF g] have f2: "lib st2 = lib st1" "m_local st2 = m_local st1" by simp_all
  show ?thesis
  proof (cases r2)
    case (Returns lid)
    with public_get_frame[OF g] have lid: "lid = length (leases st1)"
      and len: "length (leases st2) = Suc lid" by simp_all
    show ?thesis
    proof (cases "lease_bool (leases st2 ! lid)")
      case True
      with assms b r1 g Returns obtain sc where
        s: "set_attr (m_local st2) tid (get_rkey (lib st) obj) lid = Some sc"
        and st': "st' = st2\<lparr>m_local := sc\<rparr>"
        by (cases "set_attr (m_local st2) tid (get_rkey (lib st) obj) lid")
           (auto simp: acquire_def)
      with True f1 f2 lid len show ?thesis by auto
    next
      case False
      with assms b r1 g Returns have "st' = st2" by (auto simp: acquire_def)
      with f1 f2 lid len show ?thesis by auto
    qed
  next
    case (Raises e)
    with assms b r1 g have "st' = st2" by (auto simp: acquire_def split: if_splits)
    moreover from public_get_frame[OF g] Raises have "leases st2 = leases st1" by simp
    ultimately show ?thesis using f1 f2 by auto
  next
    case Hangs
    with assms b r1 g show ?thesis by (auto simp: acquire_def)
  qed
qed







section \<open>Shared mode\<close>

text \<open>
  In shared mode the scope is a bare \<open>object()\<close>: nothing is ever cached in it, and storing
  a lease raises \<open>AttributeError\<close>. So \<open>Manager.get\<close> in shared mode never returns a truthy
  lease.
\<close>

lemma shared_get_loop:
  assumes "m_local st = BareObject" and "get_loop tid objs timeout st = (Returns lid, st')"
  shows "\<not> lease_bool (leases st' ! lid)"
  using assms
proof (induction objs arbitrary: st)
  case Nil
  then show ?case
    by (auto simp: new_empty_def lease_bool_def Proxy_empty_def Proxy_init_def)
next
  case (Cons obj objs)
  obtain r1 st1 where a: "acquire tid obj timeout st = (r1, st1)"
    by (cases "acquire tid obj timeout st") auto
  with Cons.prems have r1: "r1 = Returns ()" by (cases r1) auto
  from acquire_result[OF a[unfolded r1]] Cons.prems(1) have m: "m_local st1 = BareObject"
    by auto
  with Cons.prems a r1 have "get_loop tid objs timeout st1 = (Returns lid, st')" by simp
  from Cons.IH[OF m this] show ?case .
qed

lemma shared_get_never_truthy:
  assumes "m_local st = BareObject" and "Manager_get tid objs timeout st = (Returns lid, st')"
  shows "\<not> lease_bool (leases st' ! lid)"
proof -
  from with_context_ended[OF assms(2)[unfolded Manager_get_def]]
  obtain s s' where g: "get_loop tid objs timeout s = (Returns lid, s')"
    and g1: "guard_only st s" and g2: "guard_only s' st'" by auto
  from guard_only_fields[OF g1] assms(1) have "m_local s = BareObject" by simp
  from shared_get_loop[OF this g] guard_only_fields[OF g2] show ?thesis by simp
qed

text \<open>
  Claim C8 at a failing input. After \<open>set_mode(1)\<close> a manager just created is asked for a
  lease of a live \<open>CustomProxy\<close>: the provider returns \<open>http://127.0.0.1:7890\<close>, and \<open>get\<close>
  raises \<open>AttributeError\<close> when it stores the lease. Nothing is cached: the scope is still
  the bare object, and \<open>now\<close> gives a new empty lease.
\<close>

theorem shared_mode_get_raises:
  "fst (Manager_get 0 [Instance 0] None (set_mode 1 custom_state)) = Raises AttributeError \<and>
   m_local (snd (Manager_get 0 [Instance 0] None (set_mode 1 custom_state))) = BareObject \<and>
   proxy (leases (snd (Manager_get 0 [Instance 0] None (set_mode 1 custom_state))) ! 0)
     = Some ''http://127.0.0.1:7890'' \<and>
   fst (Manager_now 0 [Instance 0]
          (snd (Manager_get 0 [Instance 0] None (set_mode 1 custom_state)))) = Returns 1 \<and>
   \<not> lease_bool (leases (snd (Manager_now 0 [Instance 0]
          (snd (Manager_get 0 [Instance 0] None (set_mode 1 custom_state))))) ! 1)"
  by (simp add: Manager_get_def Manager_now_def with_context_def set_mode_def acquire_def
      new_empty_def Proxy_empty_def Proxy_init_def build_eval get_eval state_eval)

text \<open>
  Claim C6 at a failing input, from the same defect. In shared mode, with two candidates
  of which the first times out and the second provider returns an address, \<open>get\<close> raises
  \<open>AttributeError\<close> instead of returning the second provider's lease.
\<close>

theorem shared_mode_second_candidate_raises:
  "fst (Manager_get 0 [Instance 0, custom_record] (Some 1) (set_mode 1 redis_state))
     = Raises AttributeError"
  by (simp add: Manager_get_def with_context_def set_mode_def acquire_def
      build_eval get_eval state_eval)

section \<open>\<open>ClashProxy.nodes\<close>\<close>

lemma index_of_split:
  assumes "py_eq a now" and "\<not> list_ex (\<lambda>y. py_eq y now) pre"
  shows "index_of now (pre @ a # post) = length pre"
  using assms(2) unfolding index_of_def
proof (induction pre)
  case Nil
  show ?case using assms(1) by simp
next
  case (Cons p pre)
  then show ?case by simp
qed

lemma reorder_split:
  assumes "py_eq a now" and "\<not> list_ex (\<lambda>y. py_eq y now) pre"
  shows "reorder now (pre @ a # post) = post @ pre @ [a]"
proof -
  have "list_ex (\<lambda>y. py_eq y now) (pre @ a # post)"
    using assms(1) by (simp add: list_ex_iff)
  then show ?thesis
    by (simp add: reorder_def index_of_split[OF assms])
qed

text \<open>
  Claim C9, as the code has it. The controller's answer has the key \<open>proxies\<close> and, for the
  selector, the active node \<open>now\<close> and a node list in which \<open>a\<close> is the first node equal to
  \<open>now\<close>, after the nodes \<open>pre\<close> and before the nodes \<open>post\<close>. Then \<open>nodes\<close> returns the list
  reordered to \<open>post\<close>, \<open>pre\<close>, \<open>a\<close> (it starts right after the active node, which ends up
  last), not filtered, and stores the reordered list filtered by the match predicate as the
  new cycle, at its start.
\<close>

theorem nodes_reorders:
  assumes "run_cmd (c_key c) st = (Returns data, st')"
    and "''proxies'' \<in> fst ` set data"
    and "path_get (split_dots (''proxies.'' @ c_selector c @ ''.now'')) (PDict data) = now"
    and "path_get (split_dots (''proxies.'' @ c_selector c @ ''.all'')) (PDict data) =
           PList (pre @ a # post)"
    and "py_eq a now" and "\<not> list_ex (\<lambda>y. py_eq y now) pre"
    and "c_match c = Some m"
  shows "nodes name c st =
           (Returns (PList (post @ pre @ [a])),
            c\<lparr>c_nodes := Some (filter m (post @ pre @ [a]), 0)\<rparr>, st')"
  using assms(1-4,7) reorder_split[OF assms(5,6), of post]
  by (simp add: nodes_def rotate_nodes_def iter_items_def filter_nodes_def del: filter_append)

lemma clash_world_run_cmd:
  "run_cmd ''http://127.0.0.1:9090'' (clash_world xs) =
     (Returns (proxies_answer xs),
      clash_world xs\<lparr>clash_http := (clash_http (clash_world xs))(''http://127.0.0.1:9090'' := [])\<rparr>)"
  by (simp add: run_cmd_def clash_world_def fresh_state_def numeral_eq_Suc fmt_eval)

lemma proxies_answer_paths:
  "path_get (split_dots ''proxies.GLOBAL.now'') (PDict (proxies_answer xs)) = PStr ''B''"
  "path_get (split_dots ''proxies.GLOBAL.all'') (PDict (proxies_answer xs)) = PList xs"
  by (simp_all add: proxies_answer_def dict_get_def)

text \<open>
  The controller answers \<open>now = B\<close> and \<open>all = [A, B, C, DIRECT]\<close>: the list returned is
  \<open>[C, DIRECT, A, B]\<close> and the cycle is \<open>[C, A, B]\<close>.
\<close>

theorem nodes_reorders_witness:
  "nodes [] clash_example (clash_world [PStr ''A'', PStr ''B'', PStr ''C'', PStr ''DIRECT'']) =
     (Returns (PList [PStr ''C'', PStr ''DIRECT'', PStr ''A'', PStr ''B'']),
      clash_example\<lparr>c_nodes := Some ([PStr ''C'', PStr ''A'', PStr ''B''], 0)\<rparr>,
      clash_world [PStr ''A'', PStr ''B'', PStr ''C'', PStr ''DIRECT'']
        \<lparr>clash_http := (clash_http (clash_world [PStr ''A'', PStr ''B'', PStr ''C'', PStr ''DIRECT'']))
           (''http://127.0.0.1:9090'' := [])\<rparr>)"
proof -
  let ?xs = "[PStr ''A'', PStr ''B'', PStr ''C'', PStr ''DIRECT'']"
  let ?w = "clash_world ?xs"
  have 1: "run_cmd (c_key clash_example) ?w =
             (Returns (proxies_answer ?xs),
              ?w\<lparr>clash_http := (clash_http ?w)(''http://127.0.0.1:9090'' := [])\<rparr>)"
    using clash_world_run_cmd[of ?xs] by (simp add: clash_example_def)
  have 2: "''proxies'' \<in> fst ` set (proxies_answer ?xs)"
    by (simp add: proxies_answer_def)
  have 3: "path_get (split_dots (''proxies.'' @ c_selector clash_example @ ''.now''))
             (PDict (proxies_answer ?xs)) = PStr ''B''"
    and 4: "path_get (split_dots (''proxies.'' @ c_selector clash_example @ ''.all''))
             (PDict (proxies_answer ?xs)) = PList ([PStr ''A''] @ PStr ''B'' # [PStr ''C'', PStr ''DIRECT''])"
    using proxies_answer_paths[of ?xs] by (simp_all add: clash_example_def)
  have 5: "py_eq (PStr ''B'') (PStr ''B'')"
    and 6: "\<not> list_ex (\<lambda>y. py_eq y (PStr ''B'')) [PStr ''A'']"
    and 7: "c_match clash_example = Some default_match"
    by (simp_all add: clash_example_def)
  from nodes_reorders[OF 1 2 3 4 5 6 7, of "[]"] show ?thesis
    by (simp add: clash_example_def default_match_def py_str_def)
qed

text \<open>
  What \<open>nodes\<close> returns is the reordered list, not the list as the controller sent it:
  for \<open>now = B\<close> and \<open>all = [A, B, C]\<close> it returns \<open>[C, A, B]\<close>.
\<close>

theorem nodes_returns_raw_counterexample:
  "fst (nodes [] clash_example (clash_world [PStr ''A'', PStr ''B'', PStr ''C''])) =
     Returns (PList [PStr ''C'', PStr ''A'', PStr ''B'']) \<and>
   fst (nodes [] clash_example (clash_world [PStr ''A'', PStr ''B'', PStr ''C''])) \<noteq>
     Returns (PList [PStr ''A'', PStr ''B'', PStr ''C''])"
proof -
  have "fst (nodes [] clash_example (clash_world [PStr ''A'', PStr ''B'', PStr ''C''])) =
          Returns (PList [PStr ''C'', PStr ''A'', PStr ''B''])"
    using clash_world_run_cmd[of "[PStr ''A'', PStr ''B'', PStr ''C'']"]
      proxies_answer_paths[of "[PStr ''A'', PStr ''B'', PStr ''C'']"]
    by (simp add: nodes_def clash_example_def rotate_nodes_def reorder_def index_of_def
        iter_items_def filter_nodes_def proxies_answer_def)
  then show ?thesis by simp
qed

end
